theory Spec2Isabelle
  imports Main "HOL-Library.Word" "HOL-Library.Sublist"
begin

unbundle bit_operations_syntax

section \<open>Strings as the source uses them\<close>

text \<open>
  A JavaScript string is modelled as a \<open>string\<close> (a list of \<open>char\<close>), one \<open>char\<close>
  per code unit; the code units of the model are those below 256. The three string
  methods the git handler calls are written out: \<open>split\<close> with a one-character separator,
  \<open>trim\<close>, and the line splitting of the command wrapper.
\<close>

text \<open>\<open>s.split(c)\<close> for a one-character separator: never an empty array,
  \<open>"".split(c)\<close> is \<open>[""]\<close>.\<close>

fun js_split :: "char \<Rightarrow> string \<Rightarrow> string list" where
  "js_split c [] = [[]]"
| "js_split c (x # xs) =
     (if x = c then [] # js_split c xs
      else (case js_split c xs of
              [] \<Rightarrow> [[x]]
            | y # ys \<Rightarrow> (x # y) # ys))"

text \<open>\<open>xs[i]\<close> on an array: \<open>undefined\<close> (here \<open>None\<close>) out of range.\<close>

fun js_index :: "'a list \<Rightarrow> nat \<Rightarrow> 'a option" where
  "js_index [] i = None"
| "js_index (x # xs) 0 = Some x"
| "js_index (x # xs) (Suc i) = js_index xs i"

text \<open>White space and line terminators that \<open>trim\<close> removes, among the code units
  below 256: TAB, LF, VT, FF, CR, SPACE and NBSP.\<close>

definition js_whitespace :: "char \<Rightarrow> bool" where
  "js_whitespace c = (of_char c \<in> {9, 10, 11, 12, 13, 32, 160 :: nat})"

definition js_trim :: "string \<Rightarrow> string" where
  "js_trim s = rev (dropWhile js_whitespace (rev (dropWhile js_whitespace s)))"

text \<open>The truthiness of an optional string: \<open>undefined\<close> and \<open>""\<close> are falsy.\<close>

fun truthy :: "string option \<Rightarrow> bool" where
  "truthy None = False"
| "truthy (Some s) = (s \<noteq> [])"

section \<open>Errors\<close>

text \<open>
  The \<open>code\<close> property of an error thrown by a subprocess or a file-system call: a
  number (the exit code), a string (such as \<open>ENOENT\<close>), or absent.
\<close>

datatype errcode = ExitCode int | ErrName string | NoCode

text \<open>
  Everything the handler can throw. \<open>SysError\<close> is an error of the environment (a
  failed \<open>git\<close> process, a failed \<open>stat\<close>) with its \<open>code\<close>; \<open>ConfigurationError\<close>
  carries the offending URL; \<open>RuntimeError\<close> carries the source type, the URL and the
  cause; \<open>TypeError\<close> is what the runtime throws on a non-string path argument.
\<close>

datatype error =
    SysError errcode
  | ConfigurationError string
  | RuntimeError string string error
  | TypeError

section \<open>Parsing of repository URLs\<close>

text \<open>The object \<open>{ repositoryUrl, hash }\<close> that \<open>parseGitUrl\<close> returns; the field
  \<open>hash\<close> is named \<open>url_hash\<close> here, apart from the hash of a file entry.\<close>

record parsed_url =
  repositoryUrl :: string
  url_hash :: string

text \<open>
  \<open>parseGitUrl\<close>: split at \<open>#\<close>, take parts 0 and 1, throw when part 1 is falsy
  (absent or empty). Behind the test both parts are present (part 0 always is), so the
  last case of the model is never reached.
\<close>

definition parseGitUrl :: "string \<Rightarrow> error + parsed_url" where
  "parseGitUrl url =
     (let parts = js_split (CHR ''#'') url;
          parsed_hash = js_index parts 1
      in if \<not> truthy parsed_hash then Inl (ConfigurationError url)
         else (case (js_index parts 0, parsed_hash) of
                 (Some r, Some h) \<Rightarrow> Inr \<lparr> repositoryUrl = r, url_hash = h \<rparr>
               | _ \<Rightarrow> Inl (ConfigurationError url)))"

text \<open>
  \<open>getCommitIdFromRefList\<close>: the text before the first TAB of the first line; on an
  empty list \<open>refList[0].split\<close> throws, the handler catches and returns \<open>refList[0]\<close>,
  which is \<open>undefined\<close>.
\<close>

definition getCommitIdFromRefList :: "string list \<Rightarrow> string option" where
  "getCommitIdFromRefList refList =
     (case js_index refList 0 of
        None \<Rightarrow> None
      | Some l \<Rightarrow> js_index (js_split (CHR 0x09) l) 0)"

section \<open>Paths\<close>

text \<open>
  The handler calls \<open>resolve\<close> and \<open>join\<close> of the POSIX path module. Both normalise
  the segments of a path: empty segments and \<open>.\<close> are dropped, \<open>..\<close> removes the segment
  before it; a relative path may keep leading \<open>..\<close> segments (\<open>allowAboveRoot\<close>), an
  absolute one may not. The stack \<open>st\<close> holds the segments kept so far, last one first.
\<close>

fun normalizeSegments :: "bool \<Rightarrow> string list \<Rightarrow> string list \<Rightarrow> string list" where
  "normalizeSegments allowAboveRoot st [] = rev st"
| "normalizeSegments allowAboveRoot st (x # xs) =
     (if x = [] \<or> x = ''.'' then normalizeSegments allowAboveRoot st xs
      else if x = ''..'' then
        (case st of
           t # ts \<Rightarrow>
             if t \<noteq> ''..'' then normalizeSegments allowAboveRoot ts xs
             else if allowAboveRoot then normalizeSegments allowAboveRoot (x # st) xs
             else normalizeSegments allowAboveRoot st xs
         | [] \<Rightarrow>
             if allowAboveRoot then normalizeSegments allowAboveRoot [x] xs
             else normalizeSegments allowAboveRoot [] xs)
      else normalizeSegments allowAboveRoot (x # st) xs)"

fun join_with :: "char \<Rightarrow> string list \<Rightarrow> string" where
  "join_with c [] = []"
| "join_with c [x] = x"
| "join_with c (x # y # ys) = x @ c # join_with c (y # ys)"

definition normalizeString :: "string \<Rightarrow> bool \<Rightarrow> string" where
  "normalizeString p allowAboveRoot =
     join_with (CHR ''/'') (normalizeSegments allowAboveRoot [] (js_split (CHR ''/'') p))"

definition isAbsolute :: "string \<Rightarrow> bool" where
  "isAbsolute p = (case p of [] \<Rightarrow> False | c # _ \<Rightarrow> c = CHR ''/'')"

text \<open>
  The loop of \<open>resolve\<close>: from the last argument to the first, prepend the argument
  until the path built is absolute; empty arguments are skipped. It returns the path
  built and whether it is absolute.
\<close>

fun resolve_loop :: "string list \<Rightarrow> string \<times> bool" where
  "resolve_loop [] = ([], False)"
| "resolve_loop (a # as) =
     (case resolve_loop as of
        (r, True) \<Rightarrow> (r, True)
      | (r, False) \<Rightarrow> if a = [] then (r, False) else (a @ CHR ''/'' # r, isAbsolute a))"

text \<open>\<open>resolve(...args)\<close> in a process whose working directory is \<open>cwd\<close>.\<close>

definition resolve :: "string \<Rightarrow> string list \<Rightarrow> string" where
  "resolve cwd args =
     (case resolve_loop (cwd # args) of
        (r, resolvedAbsolute) \<Rightarrow>
          (let n = normalizeString r (\<not> resolvedAbsolute)
           in if resolvedAbsolute then CHR ''/'' # n
              else if n \<noteq> [] then n else ''.''))"

text \<open>
  \<open>resolve(gitRoot, p)\<close> where \<open>gitRoot\<close> may be \<open>undefined\<close>: the arguments are
  validated as the loop reaches them, so an undefined first argument throws a
  \<open>TypeError\<close> unless \<open>p\<close> is already absolute.
\<close>

definition resolve_undef :: "string \<Rightarrow> string option \<Rightarrow> string \<Rightarrow> error + string" where
  "resolve_undef cwd gitRoot p =
     (case gitRoot of
        Some r \<Rightarrow> Inr (resolve cwd [r, p])
      | None \<Rightarrow> if isAbsolute p then Inr (resolve cwd [p]) else Inl TypeError)"

text \<open>\<open>join(a, b)\<close>: the non-empty arguments joined by \<open>/\<close>, then normalised, a trailing
  separator kept.\<close>

definition normalize :: "string \<Rightarrow> string" where
  "normalize p =
     (if p = [] then ''.''
      else (let trailingSeparator = (last p = CHR ''/'');
                n = normalizeString p (\<not> isAbsolute p)
            in if n = [] then (if isAbsolute p then ''/'' else if trailingSeparator then ''./'' else ''.'')
               else (if isAbsolute p then ''/'' else []) @ n @ (if trailingSeparator then ''/'' else [])))"

definition join :: "string list \<Rightarrow> string" where
  "join args =
     (let joined = join_with (CHR ''/'') (filter (\<lambda>a. a \<noteq> []) args)
      in if joined = [] then ''.'' else normalize joined)"

section \<open>SHA-1\<close>

text \<open>
  \<open>hasha.fromStream(stream, { algorithm: "sha1" })\<close> is the SHA-1 digest of the bytes
  of the stream, in lower-case hexadecimal. SHA-1 is written out: padding to a multiple
  of 64 bytes, the message schedule of 80 words for each block of 16 words, 80 rounds,
  and the five state words printed big-endian.
\<close>

type_synonym byte = "8 word"
type_synonym word32 = "32 word"

definition rotl :: "nat \<Rightarrow> word32 \<Rightarrow> word32" where
  "rotl n w = (push_bit n w) OR (drop_bit (32 - n) w)"

definition be_bytes :: "64 word \<Rightarrow> byte list" where
  "be_bytes v = map (\<lambda>i. ucast (drop_bit (8 * (7 - i)) v)) [0..<8]"

definition sha1_pad :: "byte list \<Rightarrow> byte list" where
  "sha1_pad m =
     m @ [0x80] @ replicate ((119 - length m mod 64) mod 64) 0 @ be_bytes (of_nat (8 * length m))"

fun be_words :: "byte list \<Rightarrow> word32 list" where
  "be_words (a # b # c # d # r) =
     (push_bit 24 (ucast a) OR push_bit 16 (ucast b) OR push_bit 8 (ucast c) OR ucast d)
       # be_words r"
| "be_words _ = []"

text \<open>The schedule: \<open>win\<close> holds the words \<open>t .. t + 15\<close>; word \<open>t + 16\<close> is the
  rotated exclusive or of the words \<open>t + 13\<close>, \<open>t + 8\<close>, \<open>t + 2\<close> and \<open>t\<close>.\<close>

fun schedule :: "nat \<Rightarrow> word32 list \<Rightarrow> word32 list" where
  "schedule 0 win = []"
| "schedule (Suc n) win =
     (case win of
        [] \<Rightarrow> []
      | w # rest \<Rightarrow>
          w # schedule n (rest @ [rotl 1 (win ! 13 XOR win ! 8 XOR win ! 2 XOR w)]))"

type_synonym sha_state = "word32 \<times> word32 \<times> word32 \<times> word32 \<times> word32"

definition sha1_round :: "sha_state \<Rightarrow> nat \<times> word32 \<Rightarrow> sha_state" where
  "sha1_round s tw =
     (case s of (a, b, c, d, e) \<Rightarrow>
      case tw of (t, w) \<Rightarrow>
        (let f = (if t < 20 then (b AND c) OR (NOT b AND d)
                  else if t < 40 then b XOR c XOR d
                  else if t < 60 then (b AND c) OR (b AND d) OR (c AND d)
                  else b XOR c XOR d);
             k = (if t < 20 then 0x5A827999
                  else if t < 40 then 0x6ED9EBA1
                  else if t < 60 then 0x8F1BBCDC
                  else 0xCA62C1D6)
         in (rotl 5 a + f + e + k + w, a, rotl 30 b, c, d)))"

definition sha1_block :: "sha_state \<Rightarrow> word32 list \<Rightarrow> sha_state" where
  "sha1_block h blk =
     (case h of (h0, h1, h2, h3, h4) \<Rightarrow>
      case foldl sha1_round h (zip [0..<80] (schedule 80 blk)) of (a, b, c, d, e) \<Rightarrow>
        (h0 + a, h1 + b, h2 + c, h3 + d, h4 + e))"

fun chunks16 :: "nat \<Rightarrow> word32 list \<Rightarrow> word32 list list" where
  "chunks16 0 ws = []"
| "chunks16 (Suc n) ws = take 16 ws # chunks16 n (drop 16 ws)"

definition hex_digit :: "nat \<Rightarrow> char" where
  "hex_digit n = ''0123456789abcdef'' ! (n mod 16)"

definition hex32 :: "word32 \<Rightarrow> string" where
  "hex32 w = map (\<lambda>i. hex_digit (unat (take_bit 4 (drop_bit (4 * (7 - i)) w)))) [0..<8]"

definition sha1 :: "byte list \<Rightarrow> string" where
  "sha1 m =
     (let ws = be_words (sha1_pad m)
      in case foldl sha1_block (0x67452301, 0xEFCDAB89, 0x98BADCFE, 0x10325476, 0xC3D2E1F0)
                (chunks16 (length ws div 16) ws) of
           (a, b, c, d, e) \<Rightarrow> concat (map hex32 [a, b, c, d, e]))"

text \<open>
  \<open>hasha.fromStream\<close> does not see the bytes at once: it digests the stream chunk by
  chunk. Between two chunks the digest keeps a context: the five state words, the bytes
  that do not fill a block of 64 yet, and the number of bytes seen. \<open>sha1_update\<close> takes
  a chunk in and compresses every block that is full; \<open>sha1_digest\<close> pads what is
  pending and prints the state.
\<close>

definition sha1_padding :: "nat \<Rightarrow> byte list" where
  "sha1_padding n = [0x80] @ replicate ((119 - n mod 64) mod 64) 0 @ be_bytes (of_nat (8 * n))"

definition compress :: "sha_state \<Rightarrow> byte list \<Rightarrow> sha_state" where
  "compress h bs = foldl sha1_block h (chunks16 (length bs div 64) (be_words bs))"

type_synonym sha_ctx = "sha_state \<times> byte list \<times> nat"

definition sha1_init :: sha_ctx where
  "sha1_init = ((0x67452301, 0xEFCDAB89, 0x98BADCFE, 0x10325476, 0xC3D2E1F0), [], 0)"

definition sha1_update :: "sha_ctx \<Rightarrow> byte list \<Rightarrow> sha_ctx" where
  "sha1_update ctx chunk =
     (case ctx of (h, pending, len) \<Rightarrow>
        (let data = pending @ chunk; n = length data div 64
         in (compress h (take (64 * n) data), drop (64 * n) data, len + length chunk)))"

definition sha1_digest :: "sha_ctx \<Rightarrow> string" where
  "sha1_digest ctx =
     (case ctx of (h, pending, len) \<Rightarrow>
      case compress h (pending @ sha1_padding len) of
        (a, b, c, d, e) \<Rightarrow> concat (map hex32 [a, b, c, d, e]))"

text \<open>The bytes a context holds back between two chunks.\<close>

definition ctx_pending :: "sha_ctx \<Rightarrow> byte list" where
  "ctx_pending ctx = (case ctx of (h, pending, len) \<Rightarrow> pending)"

section \<open>The environment of the handler\<close>

text \<open>
  The handler talks to the world through \<open>execa.stdout\<close> (a subprocess and its standard
  output), through the file system (\<open>stat\<close>, \<open>createReadStream\<close>, \<open>pathExists\<close>,
  \<open>ensureDir\<close>) and through the working directory of the process. The world is a state
  of an arbitrary type \<open>'w\<close>; the environment says what each call answers in a world and
  which world it leaves. A failed call throws: it answers \<open>Inl\<close> of the error.

  \<open>matchGlobs\<close> (imported from \<open>../util/fs\<close>) and the three members the handler
  inherits from \<open>VcsHandler\<close> (\<open>gardenDirPath\<close>, \<open>getRemoteSourcesDirname\<close>,
  \<open>getRemoteSourceRelPath\<close>) are not defined in the file of the handler: they are
  fields of the environment as well.

  \<open>createReadStream\<close> answers the chunks the stream delivers, in order, and how the
  stream finishes: it ends, or it emits an error (the file is a directory, cannot be
  read, or was removed after \<open>stat\<close>).
\<close>

datatype read_end = End | ReadError error

record 'w env =
  execa_stdout :: "string \<Rightarrow> string list \<Rightarrow> string \<Rightarrow> 'w \<Rightarrow> (error + string) \<times> 'w"
  process_cwd :: string
  stat_size :: "string \<Rightarrow> 'w \<Rightarrow> error + nat"
  createReadStream :: "string \<Rightarrow> 'w \<Rightarrow> byte list list \<times> read_end"
  pathExists :: "string \<Rightarrow> 'w \<Rightarrow> bool"
  ensureDir :: "string \<Rightarrow> 'w \<Rightarrow> error option \<times> 'w"
  matchGlobs :: "string \<Rightarrow> string list \<Rightarrow> bool"
  gardenDirPath :: string
  getRemoteSourcesDirname :: "string \<Rightarrow> string"
  getRemoteSourceRelPath :: "string \<Rightarrow> string \<Rightarrow> string \<Rightarrow> string"

text \<open>What the logger is told: \<open>log.info\<close> with section, message and status, and the
  updates of the entry it returns.\<close>

datatype log_event =
    LogInfo string string string
  | SetState string
  | SetSuccess "string option"
  | SetError

text \<open>
  The state a call of the handler runs in: the world, the events logged so far, and the
  argument lists of the \<open>git\<close> commands run so far (a record of what was executed, kept
  to state which commands a call runs).
\<close>

record 'w state =
  world :: 'w
  logs :: "log_event list"
  calls :: "string list list"

type_synonym ('w, 'a) io = "'w state \<Rightarrow> (error + 'a) \<times> 'w state"

definition log_event :: "log_event \<Rightarrow> 'w state \<Rightarrow> 'w state" where
  "log_event ev s = s\<lparr> logs := logs s @ [ev] \<rparr>"

text \<open>The \<open>code\<close> property of a caught error.\<close>

fun err_code :: "error \<Rightarrow> errcode" where
  "err_code (SysError c) = c"
| "err_code _ = NoCode"

section \<open>The git handler\<close>

text \<open>
  The parameter \<open>path\<close> of \<open>getFiles\<close> and \<open>getModifiedFiles\<close> is called \<open>root\<close> below,
  and the one of \<open>hashObject\<close> is called \<open>p\<close>: \<open>path\<close> is the field of a file entry.
\<close>

text \<open>\<open>gitCli(cwd)\<close>: run \<open>git\<close> with the arguments in \<open>cwd\<close>, split the output into
  lines and drop the empty ones.\<close>

definition output_lines :: "string \<Rightarrow> string list" where
  "output_lines output = filter (\<lambda>line. length line > 0) (js_split (CHR 0x0A) output)"

definition gitCli :: "'w env \<Rightarrow> string \<Rightarrow> string list \<Rightarrow> ('w, string list) io" where
  "gitCli env cwd args s =
     (case execa_stdout env ''git'' args cwd (world s) of
        (r, w') \<Rightarrow>
          (case r of
             Inl err \<Rightarrow> Inl err
           | Inr output \<Rightarrow> Inr (output_lines output),
           s\<lparr> world := w', calls := calls s @ [args] \<rparr>))"

definition getModifiedFiles :: "(string list \<Rightarrow> ('w, string list) io) \<Rightarrow> string \<Rightarrow> ('w, string list) io" where
  "getModifiedFiles git root s =
     (case git [''diff-index'', ''--name-only'', ''HEAD'', root] s of
        (Inr lines, s') \<Rightarrow> (Inr lines, s')
      | (Inl err, s') \<Rightarrow>
          if err_code err = ExitCode 128 then (Inr [], s')
          else (Inl err, s'))"

text \<open>An entry of \<open>files\<close>: \<open>{ path }\<close> or \<open>{ path, hash }\<close>; and a \<open>VcsFile\<close>, an entry
  of the result.\<close>

record candidate =
  c_path :: string
  c_hash :: "string option"

record VcsFile =
  path :: string
  hash :: string

text \<open>
  The mapper over \<open>lines\<close>: a line without TAB is an untracked file; otherwise the path
  follows the first TAB and the hash is the second word before it. A split has at least
  one part, so the last case of the model is never reached.
\<close>

definition parseLine :: "string \<Rightarrow> candidate" where
  "parseLine line =
     (case js_split (CHR 0x09) (js_trim line) of
        [p] \<Rightarrow> \<lparr> c_path = p, c_hash = None \<rparr>
      | a # p # _ \<Rightarrow> \<lparr> c_path = p, c_hash = js_index (js_split (CHR 0x20) a) 1 \<rparr>
      | [] \<Rightarrow> \<lparr> c_path = [], c_hash = None \<rparr>)"

text \<open>
  The \<open>try\<close> block of \<open>getFiles\<close>: \<open>lines\<close> and \<open>ignored\<close> start empty and are assigned
  one after the other; an error with code 128 is swallowed and leaves what was assigned
  before it, any other error is thrown again.
\<close>

definition scanFiles :: "(string list \<Rightarrow> ('w, string list) io) \<Rightarrow> string \<Rightarrow> ('w, string list \<times> string list) io" where
  "scanFiles git root s =
     (case git [''ls-files'', ''-s'', ''--other'', ''--exclude=.garden'', root] s of
        (Inl err, s1) \<Rightarrow>
          if err_code err \<noteq> ExitCode 128 then (Inl err, s1) else (Inr ([], []), s1)
      | (Inr lines, s1) \<Rightarrow>
          (case git [''ls-files'', ''--ignored'', ''--exclude-per-directory=.gardenignore'', root] s1 of
             (Inl err, s2) \<Rightarrow>
               if err_code err \<noteq> ExitCode 128 then (Inl err, s2) else (Inr (lines, []), s2)
           | (Inr ignored, s2) \<Rightarrow> (Inr (lines, ignored), s2)))"

text \<open>A template literal prints a size as a decimal numeral.\<close>

fun show_nat :: "nat \<Rightarrow> string" where
  "show_nat n =
     (if n < 10 then [char_of (48 + n)]
      else show_nat (n div 10) @ [char_of (48 + n mod 10)])"

definition bytes_of :: "string \<Rightarrow> byte list" where
  "bytes_of s = map (\<lambda>c. of_nat (of_char c)) s"

text \<open>
  \<open>hashObject\<close>: \<open>stat\<close> the file; push the header \<open>blob <size>\0\<close> into the stream, pipe
  the file after it, and digest the stream chunk by chunk. A size is printed in decimal
  (sizes are far below the numbers that JavaScript prints with an exponent).

  The promise rejects when \<open>stat\<close> fails. When the read stream emits an error, nobody
  listens: \<open>pipe\<close> does not pass the error on and does not end the stream that is
  digested, so the promise never settles. Not settling is the outcome \<open>None\<close>.
\<close>

definition hashObject :: "'w env \<Rightarrow> string \<Rightarrow> 'w \<Rightarrow> (error + string) option" where
  "hashObject env p w =
     (case stat_size env p w of
        Inl err \<Rightarrow> Some (Inl err)
      | Inr info_size \<Rightarrow>
          (case createReadStream env p w of
             (chunks, ReadError err) \<Rightarrow> None
           | (chunks, End) \<Rightarrow>
               Some (Inr (sha1_digest
                 (foldl sha1_update sha1_init
                    (bytes_of (''blob '' @ show_nat info_size @ [CHR 0x00]) # chunks))))))"

text \<open>
  The mapper over \<open>filtered\<close>: hash the file again when the entry has no (truthy) hash or
  its resolved path is in the modified set, with \<open>""\<close> for a file that is gone (code 128
  or \<open>ENOENT\<close>); otherwise keep the hash of the index. The mapper only reads the world;
  it does not settle when \<open>hashObject\<close> does not.
\<close>

definition hashEntry :: "'w env \<Rightarrow> string \<Rightarrow> string list \<Rightarrow> 'w \<Rightarrow> candidate \<Rightarrow> (error + VcsFile) option" where
  "hashEntry env root modified w f =
     (let resolvedPath = resolve (process_cwd env) [root, c_path f]
      in if \<not> truthy (c_hash f) \<or> resolvedPath \<in> set modified then
           (case hashObject env resolvedPath w of
              None \<Rightarrow> None
            | Some (Inr h) \<Rightarrow> Some (Inr \<lparr> path = resolvedPath, hash = h \<rparr>)
            | Some (Inl err) \<Rightarrow>
                if err_code err \<noteq> ExitCode 128 \<and> err_code err \<noteq> ErrName ''ENOENT''
                then Some (Inl err)
                else Some (Inr \<lparr> path = resolvedPath, hash = [] \<rparr>))
         else Some (Inr \<lparr> path = resolvedPath,
                          hash = (case c_hash f of Some h \<Rightarrow> h | None \<Rightarrow> []) \<rparr>))"

text \<open>
  \<open>Bluebird.map\<close> over a list, with a mapper that only reads: all the mappers are
  started; the whole rejects as soon as one of them rejects (with the first error in the
  order of the list), also while others are pending; otherwise it waits for all of them,
  for ever if one never settles; when all have resolved, the results are in the order of
  the list.
\<close>

fun io_map :: "('a \<Rightarrow> (error + 'b) option) \<Rightarrow> 'a list \<Rightarrow> (error + 'b list) option" where
  "io_map f [] = Some (Inr [])"
| "io_map f (x # xs) =
     (case f x of
        Some (Inl err) \<Rightarrow> Some (Inl err)
      | Some (Inr y) \<Rightarrow>
          (case io_map f xs of
             Some (Inr ys) \<Rightarrow> Some (Inr (y # ys))
           | Some (Inl err) \<Rightarrow> Some (Inl err)
           | None \<Rightarrow> None)
      | None \<Rightarrow>
          (case io_map f xs of
             Some (Inl err) \<Rightarrow> Some (Inl err)
           | _ \<Rightarrow> None))"

text \<open>\<open>Array.map\<close> with a callback that may throw.\<close>

fun map_throwing :: "('a \<Rightarrow> error + 'b) \<Rightarrow> 'a list \<Rightarrow> error + 'b list" where
  "map_throwing f [] = Inr []"
| "map_throwing f (x # xs) =
     (case f x of
        Inl err \<Rightarrow> Inl err
      | Inr y \<Rightarrow> (case map_throwing f xs of Inl err \<Rightarrow> Inl err | Inr ys \<Rightarrow> Inr (y # ys)))"

text \<open>\<open>filtered\<close>: the include filter first, then the ignored paths taken away. An absent
  \<open>include\<close> lets every file through.\<close>

definition filtered_files :: "'w env \<Rightarrow> string list option \<Rightarrow> string list \<Rightarrow> candidate list \<Rightarrow> candidate list" where
  "filtered_files env include ignored files =
     filter (\<lambda>f. c_path f \<notin> set ignored)
       (filter (\<lambda>f. (case include of None \<Rightarrow> True | Some inc \<Rightarrow> matchGlobs env (c_path f) inc)) files)"

text \<open>
  \<open>getFiles\<close> in two parts. \<open>gatherFiles\<close> is the body up to the set \<open>modified\<close>: the
  top level of the repository, the scan, the parsed lines, the modified paths resolved
  against the top level. It answers \<open>files\<close>, \<open>ignored\<close> and \<open>modified\<close>. \<open>getFiles\<close>
  goes on from there: filter, hash, drop the entries with an empty hash. Its promise does
  not settle (\<open>None\<close>) when the hashing does not.
\<close>

definition gatherFiles ::
    "'w env \<Rightarrow> string \<Rightarrow> ('w, candidate list \<times> string list \<times> string list) io" where
  "gatherFiles env root s0 =
     (let git = gitCli env root
      in case git [''rev-parse'', ''--show-toplevel''] s0 of
           (Inl err, s1) \<Rightarrow> (Inl err, s1)
         | (Inr toplevel, s1) \<Rightarrow>
      (let gitRoot = js_index toplevel 0
      in case scanFiles git root s1 of
           (Inl err, s2) \<Rightarrow> (Inl err, s2)
         | (Inr (lines, ignored), s2) \<Rightarrow>
      (let files = map parseLine lines
      in case getModifiedFiles git root s2 of
           (Inl err, s3) \<Rightarrow> (Inl err, s3)
         | (Inr modifiedRel, s3) \<Rightarrow>
      (case map_throwing (resolve_undef (process_cwd env) gitRoot) modifiedRel of
           Inl err \<Rightarrow> (Inl err, s3)
         | Inr modified \<Rightarrow> (Inr (files, ignored, modified), s3)))))"

definition getFiles ::
    "'w env \<Rightarrow> string \<Rightarrow> string list option \<Rightarrow> 'w state
      \<Rightarrow> ((error + VcsFile list) \<times> 'w state) option" where
  "getFiles env root include s0 =
     (case gatherFiles env root s0 of
        (Inl err, s3) \<Rightarrow> Some (Inl err, s3)
      | (Inr (files, ignored, modified), s3) \<Rightarrow>
          (let filtered = filtered_files env include ignored files
           in case io_map (hashEntry env root modified (world s3)) filtered of
                None \<Rightarrow> None
              | Some (Inl err) \<Rightarrow> Some (Inl err, s3)
              | Some (Inr res) \<Rightarrow> Some (Inr (filter (\<lambda>f. hash f \<noteq> []) res), s3)))"

section \<open>Remote sources\<close>

text \<open>\<open>RemoteSourceParams\<close>: \<open>{ url, name, sourceType, log }\<close>; the log is the \<open>logs\<close> of
  the state.\<close>

record RemoteSourceParams =
  url :: string
  name :: string
  sourceType :: string

definition remoteSourceAbsPath :: "'w env \<Rightarrow> RemoteSourceParams \<Rightarrow> string" where
  "remoteSourceAbsPath env p =
     join [gardenDirPath env, getRemoteSourceRelPath env (name p) (url p) (sourceType p)]"

definition ensureRemoteSource :: "'w env \<Rightarrow> RemoteSourceParams \<Rightarrow> ('w, string) io" where
  "ensureRemoteSource env p s0 =
     (let remoteSourcesPath = join [gardenDirPath env, getRemoteSourcesDirname env (sourceType p)]
      in case ensureDir env remoteSourcesPath (world s0) of
           (Some err, w1) \<Rightarrow> (Inl err, s0\<lparr> world := w1 \<rparr>)
         | (None, w1) \<Rightarrow>
      (let s1 = s0\<lparr> world := w1 \<rparr>;
           git = gitCli env remoteSourcesPath;
           absPath = remoteSourceAbsPath env p;
           isCloned = pathExists env absPath (world s1)
       in if \<not> isCloned then
            (let s2 = log_event (LogInfo (name p) (''Fetching from '' @ url p) ''active'') s1
             in case parseGitUrl (url p) of
                  Inl err \<Rightarrow> (Inl err, s2)
                | Inr parsed \<Rightarrow>
                    (case git [''clone'', ''--depth=1'', ''--branch='' @ url_hash parsed,
                               repositoryUrl parsed, absPath] s2 of
                       (Inl err, s3) \<Rightarrow>
                         (Inl (RuntimeError (''Downloading remote '' @ sourceType p) (url p) err),
                          log_event SetError s3)
                     | (Inr _, s3) \<Rightarrow> (Inr absPath, log_event (SetSuccess None) s3)))
          else (Inr absPath, s1)))"

text \<open>
  \<open>updateRemoteSource\<close> in two parts. \<open>getRemoteState\<close> is the body up to the
  comparison: parse the URL, ensure the source, tell the logger, run \<open>remote update\<close>,
  read the remote and the local commit id. \<open>updateRemoteSource\<close> goes on from the
  comparison.
\<close>

definition getRemoteState ::
    "'w env \<Rightarrow> RemoteSourceParams \<Rightarrow> ('w, parsed_url \<times> string option \<times> string option) io" where
  "getRemoteState env p s0 =
     (let absPath = remoteSourceAbsPath env p;
          git = gitCli env absPath
      in case parseGitUrl (url p) of
           Inl err \<Rightarrow> (Inl err, s0)
         | Inr parsed \<Rightarrow>
      (case ensureRemoteSource env p s0 of
           (Inl err, s1) \<Rightarrow> (Inl err, s1)
         | (Inr _, s1) \<Rightarrow>
      (let s2 = log_event (LogInfo (name p) ''Getting remote state'' ''active'') s1
      in case git [''remote'', ''update''] s2 of
           (Inl err, s3) \<Rightarrow> (Inl err, s3)
         | (Inr _, s3) \<Rightarrow>
      (case git [''ls-remote'', repositoryUrl parsed, url_hash parsed] s3 of
           (Inl err, s4) \<Rightarrow> (Inl err, s4)
         | (Inr remoteRefs, s4) \<Rightarrow>
      (let remoteCommitId = getCommitIdFromRefList remoteRefs
      in case git [''show-ref'', ''--hash'', url_hash parsed] s4 of
           (Inl err, s5) \<Rightarrow> (Inl err, s5)
         | (Inr localRefs, s5) \<Rightarrow>
      (let localCommitId = getCommitIdFromRefList localRefs
      in (Inr (parsed, remoteCommitId, localCommitId), s5)))))))"

definition updateRemoteSource :: "'w env \<Rightarrow> RemoteSourceParams \<Rightarrow> ('w, unit) io" where
  "updateRemoteSource env p s0 =
     (let git = gitCli env (remoteSourceAbsPath env p)
      in case getRemoteState env p s0 of
           (Inl err, s5) \<Rightarrow> (Inl err, s5)
         | (Inr (parsed, remoteCommitId, localCommitId), s5) \<Rightarrow>
             if localCommitId \<noteq> remoteCommitId then
               (let s6 = log_event (SetState (''Fetching from '' @ url p)) s5
                in case git [''fetch'', ''--depth=1'', ''origin'', url_hash parsed] s6 of
                     (Inl err, s7) \<Rightarrow>
                       (Inl (RuntimeError (''Updating remote '' @ sourceType p) (url p) err),
                        log_event SetError s7)
                   | (Inr _, s7) \<Rightarrow>
                       (case git [''reset'', ''--hard'', ''origin/'' @ url_hash parsed] s7 of
                          (Inl err, s8) \<Rightarrow>
                            (Inl (RuntimeError (''Updating remote '' @ sourceType p) (url p) err),
                             log_event SetError s8)
                        | (Inr _, s8) \<Rightarrow>
                            (Inr (), log_event (SetSuccess (Some ''Source updated'')) s8)))
             else (Inr (), log_event (SetSuccess (Some ''Source already up to date'')) s5))"

section \<open>Task results\<close>

text \<open>
  \<open>RunResult\<close> is what \<open>runPod\<close> resolves to and \<open>RunTaskResult\<close> adds the task name;
  the fields are those of the task results of the tests (\<open>output\<close> is named
  \<open>run_output\<close> here). Times are numbers.
\<close>

record RunResult =
  moduleName :: string
  command :: "string list"
  version :: string
  success :: bool
  startedAt :: nat
  completedAt :: nat
  run_output :: string

record RunTaskResult = RunResult +
  taskName :: string

text \<open>
  Modelled from the spec: \<open>tailString\<close> (imported from \<open>util/string\<close>) is not among the
  sources. The spec says of an output that exceeds the ceiling that "it is truncated,
  retaining the tail of the output": the model keeps the last \<open>maxLength\<close> characters.
  The spec says nothing of the third argument, which the model ignores.
\<close>

definition tailString :: "string \<Rightarrow> nat \<Rightarrow> bool \<Rightarrow> string" where
  "tailString str maxLength nextLine =
     (if length str > maxLength then drop (length str - maxLength) str else str)"

text \<open>
  Modelled from the spec: \<open>storeTaskResult\<close> (imported from \<open>../task-results\<close>) is not
  among the sources. It is the \<open>put(scope, version, result)\<close> of the spec, which
  "persists result; if result.output exceeds a configured size ceiling it is truncated,
  retaining the tail of the output"; the scope is the pair of module and task, and a
  newer write overwrites. The ceiling \<open>MAX_RUN_RESULT_OUTPUT_LENGTH\<close> (imported from
  \<open>../constants\<close>) is a parameter.
\<close>

type_synonym result_store = "string \<times> string \<times> string \<rightharpoonup> RunTaskResult"

definition storeTaskResult ::
    "nat \<Rightarrow> string \<Rightarrow> string \<Rightarrow> string \<Rightarrow> RunTaskResult \<Rightarrow> result_store \<Rightarrow> result_store" where
  "storeTaskResult MAX_RUN_RESULT_OUTPUT_LENGTH module_name task_name taskVersion result store =
     store((module_name, task_name, taskVersion) \<mapsto>
       result\<lparr> run_output := tailString (run_output result) MAX_RUN_RESULT_OUTPUT_LENGTH True \<rparr>)"

text \<open>
  \<open>runHelmTask\<close> and \<open>runContainerTask\<close>, from the point where \<open>runPod\<close> has answered
  (\<open>res\<close>, or the error it threw): both build the result, store it and return it. Only
  \<open>runHelmTask\<close> cuts the output itself.
\<close>

definition runHelmTask ::
    "nat \<Rightarrow> string \<Rightarrow> string \<Rightarrow> string \<Rightarrow> error + RunResult \<Rightarrow> result_store
      \<Rightarrow> (error + RunTaskResult) \<times> result_store" where
  "runHelmTask MAX_RUN_RESULT_OUTPUT_LENGTH module_name task_name taskVersion runPod store =
     (case runPod of
        Inl err \<Rightarrow> (Inl err, store)
      | Inr res \<Rightarrow>
          (let result = RunResult.extend
                 (res\<lparr> run_output := tailString (run_output res) MAX_RUN_RESULT_OUTPUT_LENGTH True \<rparr>)
                 (RunTaskResult.fields task_name)
           in (Inr result,
               storeTaskResult MAX_RUN_RESULT_OUTPUT_LENGTH module_name task_name taskVersion
                 result store)))"

definition runContainerTask ::
    "nat \<Rightarrow> string \<Rightarrow> string \<Rightarrow> string \<Rightarrow> error + RunResult \<Rightarrow> result_store
      \<Rightarrow> (error + RunTaskResult) \<times> result_store" where
  "runContainerTask MAX_RUN_RESULT_OUTPUT_LENGTH module_name task_name taskVersion runPod store =
     (case runPod of
        Inl err \<Rightarrow> (Inl err, store)
      | Inr res \<Rightarrow>
          (let result = RunResult.extend res (RunTaskResult.fields task_name)
           in (Inr result,
               storeTaskResult MAX_RUN_RESULT_OUTPUT_LENGTH module_name task_name taskVersion
                 result store)))"

section \<open>Notions the properties are stated with\<close>

text \<open>The absolute path of a candidate, whether the include filter lets a candidate
  through, and whether \<open>getFiles\<close> hashes a candidate again.\<close>

definition resolvedPath :: "'w env \<Rightarrow> string \<Rightarrow> candidate \<Rightarrow> string" where
  "resolvedPath env root f = resolve (process_cwd env) [root, c_path f]"

definition included :: "'w env \<Rightarrow> string list option \<Rightarrow> candidate \<Rightarrow> bool" where
  "included env include f =
     (case include of None \<Rightarrow> True | Some inc \<Rightarrow> matchGlobs env (c_path f) inc)"

definition needsHash :: "'w env \<Rightarrow> string \<Rightarrow> string list \<Rightarrow> candidate \<Rightarrow> bool" where
  "needsHash env root modified f =
     (\<not> truthy (c_hash f) \<or> resolvedPath env root f \<in> set modified)"

text \<open>A file is gone when hashing it fails with code 128 or \<open>ENOENT\<close>.\<close>

definition fileGone :: "'w env \<Rightarrow> string \<Rightarrow> 'w \<Rightarrow> bool" where
  "fileGone env p w =
     (case hashObject env p w of
        Some (Inl err) \<Rightarrow> err_code err = ExitCode 128 \<or> err_code err = ErrName ''ENOENT''
      | _ \<Rightarrow> False)"

text \<open>
  The blob hash of git (\<open>git hash-object\<close>), in the words of the specification: the
  SHA-1 digest of the header \<open>"blob " + byteLength + NUL\<close> followed by the bytes of the
  content.
\<close>

definition git_hash_object :: "byte list \<Rightarrow> string" where
  "git_hash_object content =
     sha1 (bytes_of (''blob '' @ show_nat (length content) @ [CHR 0x00]) @ content)"

text \<open>
  What a context is after the bytes \<open>seen\<close> have gone through: it has counted them,
  holds back the bytes behind the last full block, and its state is the compression of
  the full blocks.
\<close>

definition ctx_inv :: "byte list \<Rightarrow> sha_ctx \<Rightarrow> bool" where
  "ctx_inv seen ctx =
     (case ctx of (h, pending, len) \<Rightarrow>
        len = length seen \<and>
        pending = drop (64 * (length seen div 64)) seen \<and>
        h = compress (fst sha1_init) (take (64 * (length seen div 64)) seen))"

text \<open>The \<open>git\<close> commands a call has run, and whether a command is a \<open>fetch\<close> or a
  \<open>reset\<close>.\<close>

definition new_calls :: "'w state \<Rightarrow> 'w state \<Rightarrow> string list list" where
  "new_calls s s' = drop (length (calls s)) (calls s')"

definition fetch_or_reset :: "string list \<Rightarrow> bool" where
  "fetch_or_reset args = (case args of [] \<Rightarrow> False | a # _ \<Rightarrow> a = ''fetch'' \<or> a = ''reset'')"

text \<open>
  A world is settled for a remote source when nothing is left to do and nothing moves:
  the URL parses, the checkout is there, \<open>ensureDir\<close> and the three commands that
  \<open>updateRemoteSource\<close> runs before it compares (\<open>remote update\<close>, \<open>ls-remote\<close>,
  \<open>show-ref\<close>) succeed and leave the world as it is (no upstream change shows up), and
  the commit id read from \<open>show-ref\<close> is the one read from \<open>ls-remote\<close>.
\<close>

definition settled :: "'w env \<Rightarrow> RemoteSourceParams \<Rightarrow> 'w \<Rightarrow> bool" where
  "settled env p w =
     (case parseGitUrl (url p) of
        Inl _ \<Rightarrow> False
      | Inr parsed \<Rightarrow>
          (let absPath = remoteSourceAbsPath env p;
               git = (\<lambda>args. execa_stdout env ''git'' args absPath w)
           in ensureDir env (join [gardenDirPath env, getRemoteSourcesDirname env (sourceType p)]) w
                = (None, w) \<and>
              pathExists env absPath w \<and>
              (case git [''remote'', ''update''] of
                 (Inr _, w') \<Rightarrow> w' = w
               | (Inl _, _) \<Rightarrow> False) \<and>
              (case git [''ls-remote'', repositoryUrl parsed, url_hash parsed] of
                 (Inl _, _) \<Rightarrow> False
               | (Inr remoteOut, w') \<Rightarrow>
                   w' = w \<and>
                   (case git [''show-ref'', ''--hash'', url_hash parsed] of
                      (Inl _, _) \<Rightarrow> False
                    | (Inr localOut, w'') \<Rightarrow>
                        w'' = w \<and>
                        getCommitIdFromRefList (output_lines localOut) =
                          getCommitIdFromRefList (output_lines remoteOut)))))"

text \<open>What a call that finds the source up to date tells the logger.\<close>

definition up_to_date_logs :: "RemoteSourceParams \<Rightarrow> log_event list" where
  "up_to_date_logs p =
     [LogInfo (name p) ''Getting remote state'' ''active'',
      SetSuccess (Some ''Source already up to date'')]"

section \<open>Worlds to run the handler in\<close>

text \<open>
  A scripted world: \<open>git\<close> answers by its arguments, the files are a fixed table from
  paths to contents, and nothing changes. A pattern matches the path equal to it.
\<close>

definition script_env :: "(string list \<Rightarrow> error + string) \<Rightarrow> (string \<rightharpoonup> byte list) \<Rightarrow> unit env" where
  "script_env git files =
     \<lparr> execa_stdout = (\<lambda>file args cwd w. (git args, w)),
       process_cwd = ''/work'',
       stat_size = (\<lambda>p w. case files p of
                             None \<Rightarrow> Inl (SysError (ErrName ''ENOENT''))
                           | Some content \<Rightarrow> Inr (length content)),
       createReadStream = (\<lambda>p w. case files p of
                                    None \<Rightarrow> ([], ReadError (SysError (ErrName ''ENOENT'')))
                                  | Some content \<Rightarrow> ([content], End)),
       pathExists = (\<lambda>p w. files p \<noteq> None),
       ensureDir = (\<lambda>p w. (None, w)),
       matchGlobs = (\<lambda>p patterns. p \<in> set patterns),
       gardenDirPath = ''/work/.garden'',
       getRemoteSourcesDirname = (\<lambda>sourceType. ''sources/'' @ sourceType),
       getRemoteSourceRelPath = (\<lambda>name url sourceType. ''sources/'' @ sourceType @ ''/'' @ name) \<rparr>"

definition initial_state :: "'w \<Rightarrow> 'w state" where
  "initial_state w = \<lparr> world = w, logs = [], calls = [] \<rparr>"

text \<open>A directory outside every repository: each \<open>git\<close> command exits with code 128.\<close>

definition not_a_repository :: "unit env" where
  "not_a_repository = script_env (\<lambda>args. Inl (SysError (ExitCode 128))) Map.empty"

text \<open>A repository at \<open>/repo\<close> without any commit: \<open>diff-index\<close> against \<open>HEAD\<close> exits
  with code 128, the scan lists one untracked file.\<close>

definition unlines :: "string list \<Rightarrow> string" where
  "unlines ls = concat (map (\<lambda>l. l @ [CHR 0x0A]) ls)"

definition no_commit_git :: "string list \<Rightarrow> error + string" where
  "no_commit_git args =
     (if args = [''rev-parse'', ''--show-toplevel''] then Inr (unlines [''/repo''])
      else if args = [''ls-files'', ''-s'', ''--other'', ''--exclude=.garden'', ''/repo'']
        then Inr (unlines [''new.go''])
      else if args = [''ls-files'', ''--ignored'', ''--exclude-per-directory=.gardenignore'', ''/repo'']
        then Inr []
      else if args = [''diff-index'', ''--name-only'', ''HEAD'', ''/repo'']
        then Inl (SysError (ExitCode 128))
      else Inl (SysError (ExitCode 1)))"

text \<open>
  A repository at \<open>/repo\<close> with three tracked files (\<open>b.go\<close> modified, \<open>skip.go\<close>
  ignored) and three untracked ones (\<open>gone.go\<close> deleted since the scan).
\<close>

definition tracked_line :: "string \<Rightarrow> string \<Rightarrow> string" where
  "tracked_line h p = ''100644 '' @ h @ '' 0'' @ [CHR 0x09] @ p"

definition repo_git :: "string list \<Rightarrow> error + string" where
  "repo_git args =
     (if args = [''rev-parse'', ''--show-toplevel''] then Inr (unlines [''/repo''])
      else if args = [''ls-files'', ''-s'', ''--other'', ''--exclude=.garden'', ''/repo'']
        then Inr (unlines [tracked_line ''aaaa'' ''a.go'', tracked_line ''bbbb'' ''b.go'',
                           tracked_line ''cccc'' ''skip.go'', ''new.go'', ''gone.go'', ''README.md''])
      else if args = [''ls-files'', ''--ignored'', ''--exclude-per-directory=.gardenignore'', ''/repo'']
        then Inr (unlines [''skip.go''])
      else if args = [''diff-index'', ''--name-only'', ''HEAD'', ''/repo'']
        then Inr (unlines [''b.go''])
      else Inl (SysError (ExitCode 1)))"

definition repo_files :: "string \<rightharpoonup> byte list" where
  "repo_files =
     [''/repo/a.go'' \<mapsto> [0x41], ''/repo/b.go'' \<mapsto> [0x42, 0x32], ''/repo/skip.go'' \<mapsto> [0x53],
      ''/repo/new.go'' \<mapsto> [0x4E], ''/repo/README.md'' \<mapsto> [0x52]]"

definition repo_env :: "unit env" where
  "repo_env = script_env repo_git repo_files"

definition go_files :: "string list" where
  "go_files = [''a.go'', ''b.go'', ''skip.go'', ''new.go'', ''gone.go'']"

text \<open>What the scan of this repository finds, the state it leaves, and what \<open>getFiles\<close>
  answers for the include list \<open>go_files\<close>.\<close>

definition repo_candidates :: "candidate list" where
  "repo_candidates =
     [\<lparr>c_path = ''a.go'', c_hash = Some ''aaaa''\<rparr>,
      \<lparr>c_path = ''b.go'', c_hash = Some ''bbbb''\<rparr>,
      \<lparr>c_path = ''skip.go'', c_hash = Some ''cccc''\<rparr>,
      \<lparr>c_path = ''new.go'', c_hash = None\<rparr>,
      \<lparr>c_path = ''gone.go'', c_hash = None\<rparr>,
      \<lparr>c_path = ''README.md'', c_hash = None\<rparr>]"

definition repo_scanned :: "unit state" where
  "repo_scanned =
     \<lparr>world = (), logs = [],
       calls = [[''rev-parse'', ''--show-toplevel''],
                [''ls-files'', ''-s'', ''--other'', ''--exclude=.garden'', ''/repo''],
                [''ls-files'', ''--ignored'', ''--exclude-per-directory=.gardenignore'', ''/repo''],
                [''diff-index'', ''--name-only'', ''HEAD'', ''/repo'']]\<rparr>"

definition repo_result :: "VcsFile list" where
  "repo_result =
     [\<lparr>path = ''/repo/a.go'', hash = ''aaaa''\<rparr>,
      \<lparr>path = ''/repo/b.go'', hash = git_hash_object [0x42, 0x32]\<rparr>,
      \<lparr>path = ''/repo/new.go'', hash = git_hash_object [0x4E]\<rparr>]"

text \<open>
  A world with one remote source: whether it is cloned, the commit of the checkout, the
  commit of the remote-tracking branch and the commit of the remote. \<open>clone\<close> checks the
  remote commit out, \<open>remote update\<close> and \<open>fetch\<close> move the tracking branch to it,
  \<open>reset\<close> moves the checkout to the tracking branch, \<open>ls-remote\<close> and \<open>show-ref\<close>
  print; before the clone there is no directory to run anything else in.
\<close>

record sim_world =
  cloned :: bool
  local_commit :: string
  tracking_commit :: string
  remote_commit :: string

definition sim_git :: "string list \<Rightarrow> sim_world \<Rightarrow> (error + string) \<times> sim_world" where
  "sim_git args w =
     (case args of
        [] \<Rightarrow> (Inl (SysError (ExitCode 1)), w)
      | a # rest \<Rightarrow>
          if a = ''clone'' then
            (Inr [], w\<lparr> cloned := True, local_commit := remote_commit w,
                        tracking_commit := remote_commit w \<rparr>)
          else if \<not> cloned w then (Inl (SysError (ErrName ''ENOENT'')), w)
          else if a = ''remote'' then
            (Inr (unlines [''Fetching origin'']), w\<lparr> tracking_commit := remote_commit w \<rparr>)
          else if a = ''ls-remote'' then
            (Inr (unlines [remote_commit w @ [CHR 0x09] @ ''refs/heads/main'']), w)
          else if a = ''show-ref'' then
            (Inr (unlines [local_commit w, tracking_commit w]), w)
          else if a = ''fetch'' then (Inr [], w\<lparr> tracking_commit := remote_commit w \<rparr>)
          else if a = ''reset'' then (Inr [], w\<lparr> local_commit := tracking_commit w \<rparr>)
          else (Inl (SysError (ExitCode 1)), w))"

definition sim_env :: "sim_world env" where
  "sim_env =
     \<lparr> execa_stdout = (\<lambda>file args cwd w. sim_git args w),
       process_cwd = ''/work'',
       stat_size = (\<lambda>p w. Inl (SysError (ErrName ''ENOENT''))),
       createReadStream = (\<lambda>p w. ([], ReadError (SysError (ErrName ''ENOENT'')))),
       pathExists = (\<lambda>p w. cloned w),
       ensureDir = (\<lambda>p w. (None, w)),
       matchGlobs = (\<lambda>p patterns. p \<in> set patterns),
       gardenDirPath = ''/work/.garden'',
       getRemoteSourcesDirname = (\<lambda>sourceType. ''sources/'' @ sourceType),
       getRemoteSourceRelPath = (\<lambda>name url sourceType. ''sources/'' @ sourceType @ ''/'' @ name) \<rparr>"

definition sim_params :: RemoteSourceParams where
  "sim_params = \<lparr> url = ''https://example.com/r.git#main'', name = ''lib'', sourceType = ''module'' \<rparr>"

definition sim_synced :: sim_world where
  "sim_synced = \<lparr> cloned = True, local_commit = ''c0ffee'', tracking_commit = ''c0ffee'',
                   remote_commit = ''c0ffee'' \<rparr>"

text \<open>The state in which \<open>updateRemoteSource\<close> compares the commit ids, when it starts
  in the initial state of \<open>sim_synced\<close>.\<close>

definition sim_queried :: "sim_world state" where
  "sim_queried =
     \<lparr> world = sim_synced,
       logs = [LogInfo ''lib'' ''Getting remote state'' ''active''],
       calls = [[''remote'', ''update''],
                [''ls-remote'', ''https://example.com/r.git'', ''main''],
                [''show-ref'', ''--hash'', ''main'']] \<rparr>"

text \<open>
  Contents whose blob hash git prints: \<open>hello\<close> and \<open>hello world\<close>, each with a line
  feed, and sixty times the letter \<open>a\<close> (with its header, more than one block).
\<close>

definition hello_content :: "byte list" where
  "hello_content = bytes_of (''hello'' @ [CHR 0x0A])"

definition hello_world_content :: "byte list" where
  "hello_world_content = bytes_of (''hello world'' @ [CHR 0x0A])"

definition sixty_a :: "byte list" where
  "sixty_a = replicate 60 0x61"

text \<open>A world where the file \<open>/repo/hello.txt\<close> is read in three chunks, and a world where
  every path is a directory: \<open>stat\<close> answers a size and the read stream fails.\<close>

definition chunked_env :: "unit env" where
  "chunked_env =
     (script_env repo_git repo_files)
       \<lparr> stat_size := (\<lambda>p w. Inr 12),
         createReadStream :=
           (\<lambda>p w. ([bytes_of ''hel'', bytes_of ''lo wor'', bytes_of (''ld'' @ [CHR 0x0A])], End)) \<rparr>"

definition directory_env :: "unit env" where
  "directory_env =
     (script_env repo_git repo_files)
       \<lparr> stat_size := (\<lambda>p w. Inr 4096),
         createReadStream := (\<lambda>p w. ([], ReadError (SysError (ErrName ''EISDIR'')))) \<rparr>"

text \<open>A result of a pod whose output has ten characters.\<close>

definition sample_result :: RunResult where
  "sample_result =
     \<lparr> moduleName = ''module-a'', command = [''echo'', ''A''], version = ''v-1'', success = True,
       startedAt = 0, completedAt = 0, run_output = ''0123456789'' \<rparr>"

section \<open>Facts about the string functions\<close>

declare show_nat.simps [simp del]

lemma js_split_nonempty: "js_split c s \<noteq> []"
  by (induction s) (auto split: list.splits)

lemma js_split_no_sep: "c \<notin> set s \<Longrightarrow> js_split c s = [s]"
  by (induction s) auto

lemma js_split_append:
  "c \<notin> set a \<Longrightarrow> js_split c (a @ c # b) = a # js_split c b"
  by (induction a) (auto split: list.splits simp: js_split_nonempty)

section \<open>Repository URLs\<close>

lemma parseGitUrl_no_separator:
  "CHR ''#'' \<notin> set u \<Longrightarrow> parseGitUrl u = Inl (ConfigurationError u)"
  by (simp add: parseGitUrl_def js_split_no_sep)

lemma parseGitUrl_split:
  assumes "CHR ''#'' \<notin> set r"
  shows "parseGitUrl (r @ CHR ''#'' # rest) =
           (case js_split (CHR ''#'') rest of
              [] \<Rightarrow> Inl (ConfigurationError (r @ CHR ''#'' # rest))
            | h # _ \<Rightarrow> if h = [] then Inl (ConfigurationError (r @ CHR ''#'' # rest))
                       else Inr \<lparr> repositoryUrl = r, url_hash = h \<rparr>)"
  using assms
  by (simp add: parseGitUrl_def js_split_append split: list.splits)

text \<open>
  C3: a URL without \<open>#\<close>, and a URL that ends with its only \<open>#\<close>, make \<open>parseGitUrl\<close>
  throw a \<open>ConfigurationError\<close>; a URL \<open>r#h\<close> with a non-empty \<open>h\<close> (and no \<open>#\<close> in \<open>r\<close>
  or \<open>h\<close>) is parsed into the repository URL \<open>r\<close> and the ref name \<open>h\<close>.
\<close>

theorem parseGitUrl_ref_mandatory:
  "(CHR ''#'' \<notin> set u \<longrightarrow> parseGitUrl u = Inl (ConfigurationError u)) \<and>
   (CHR ''#'' \<notin> set r \<longrightarrow> parseGitUrl (r @ ''#'') = Inl (ConfigurationError (r @ ''#''))) \<and>
   (CHR ''#'' \<notin> set r \<and> CHR ''#'' \<notin> set h \<and> h \<noteq> [] \<longrightarrow>
      parseGitUrl (r @ ''#'' @ h) = Inr \<lparr> repositoryUrl = r, url_hash = h \<rparr>)"
  by (auto simp: parseGitUrl_no_separator parseGitUrl_split js_split_no_sep)

text \<open>The two examples of the specification, and a URL with an empty ref name.\<close>

theorem parseGitUrl_ref_mandatory_witness:
  "parseGitUrl ''https://example.com/r.git'' = Inl (ConfigurationError ''https://example.com/r.git'') \<and>
   parseGitUrl ''https://example.com/r.git#'' = Inl (ConfigurationError ''https://example.com/r.git#'') \<and>
   parseGitUrl ''https://example.com/r.git#main'' =
     Inr \<lparr> repositoryUrl = ''https://example.com/r.git'', url_hash = ''main'' \<rparr>"
  using parseGitUrl_ref_mandatory
    [of "''https://example.com/r.git''" "''https://example.com/r.git''" "''main''"]
  by simp

text \<open>
  A URL with two \<open>#\<close> is not always parsed: when nothing stands between the first
  and the second \<open>#\<close>, the ref name is empty and \<open>parseGitUrl\<close> throws.
\<close>

theorem parseGitUrl_second_separator_counterexample:
  "count_list ''https://host/r.git##b'' (CHR ''#'') = 2 \<and>
   parseGitUrl ''https://host/r.git##b'' = Inl (ConfigurationError ''https://host/r.git##b'')"
  by (simp add: parseGitUrl_def)

text \<open>
  C10 (as amended): on \<open>r#h#rest\<close>, with no \<open>#\<close> in \<open>r\<close> or \<open>h\<close>, \<open>parseGitUrl\<close> returns
  the repository URL \<open>r\<close> and the ref name \<open>h\<close> and drops \<open>#rest\<close> when \<open>h\<close> is not
  empty; when \<open>h\<close> is empty it throws a \<open>ConfigurationError\<close>.
\<close>

theorem parseGitUrl_second_separator:
  assumes "CHR ''#'' \<notin> set r" and "CHR ''#'' \<notin> set h"
  shows "parseGitUrl (r @ ''#'' @ h @ ''#'' @ rest) =
           (if h \<noteq> [] then Inr \<lparr> repositoryUrl = r, url_hash = h \<rparr>
            else Inl (ConfigurationError (r @ ''#'' @ h @ ''#'' @ rest)))"
  using assms by (simp add: parseGitUrl_split js_split_append)

theorem parseGitUrl_second_separator_witness:
  "parseGitUrl ''https://host/r.git#a#b'' =
     Inr \<lparr> repositoryUrl = ''https://host/r.git'', url_hash = ''a'' \<rparr>"
  using parseGitUrl_second_separator [of "''https://host/r.git''" "''a''" "''b''"]
  by simp

section \<open>Hashing\<close>

lemma sha1_nonempty: "sha1 m \<noteq> []"
  by (simp add: sha1_def hex32_def Let_def split: prod.splits)

text \<open>Digesting chunk by chunk is digesting at once: the context after some chunks is
  the one of their concatenation, and the digest pads what is pending.\<close>

lemma be_words_append:
  "length a mod 4 = 0 \<Longrightarrow> be_words (a @ b) = be_words a @ be_words b"
  by (induction a rule: be_words.induct) simp_all

lemma length_be_words: "length (be_words a) = length a div 4"
  by (induction a rule: be_words.induct) simp_all

lemma chunks16_append:
  "length xs = 16 * n \<Longrightarrow> chunks16 (n + m) (xs @ ys) = chunks16 n xs @ chunks16 m ys"
proof (induction n arbitrary: xs)
  case 0
  then show ?case by simp
next
  case (Suc n)
  then have "length (drop 16 xs) = 16 * n" by simp
  from Suc.IH [OF this] Suc.prems show ?case by simp
qed

lemma compress_append:
  assumes "length a mod 64 = 0"
  shows "compress h (a @ b) = compress (compress h a) b"
proof -
  from assms have "64 dvd length a" by presburger
  then obtain k where k: "length a = 64 * k" by (auto simp: dvd_def)
  then have a4: "length a mod 4 = 0" by presburger
  have la: "length (be_words a) = 16 * k" using k by (simp add: length_be_words)
  have "length (a @ b) div 64 = k + length b div 64" using k by simp
  then show ?thesis
    using la k
    by (simp add: compress_def be_words_append [OF a4] chunks16_append)
qed


lemma compress_Nil: "compress h [] = h"
  by (simp add: compress_def)

lemma ctx_inv_init: "ctx_inv [] sha1_init"
  by (simp add: ctx_inv_def sha1_init_def compress_Nil)

lemma ctx_inv_update:
  assumes "ctx_inv seen ctx"
  shows "ctx_inv (seen @ c) (sha1_update ctx c)"
proof -
  obtain h pending len where ctx: "ctx = (h, pending, len)" by (cases ctx)
  define k where "k = length seen div 64"
  define A where "A = take (64 * k) seen"
  define data where "data = pending @ c"
  define n where "n = length data div 64"
  from assms ctx have len: "len = length seen" and pending: "pending = drop (64 * k) seen"
    and h: "h = compress (fst sha1_init) A"
    by (simp_all add: ctx_inv_def k_def A_def)
  have lenA: "length A = 64 * k" by (simp add: A_def k_def)
  have seen: "seen = A @ pending" by (simp add: A_def pending)
  have seen': "seen @ c = A @ data" by (simp add: seen data_def)
  have k': "length (seen @ c) div 64 = k + n"
    by (simp add: seen' lenA n_def)
  have tk: "take (64 * (k + n)) (seen @ c) = A @ take (64 * n) data"
    by (simp add: seen' lenA distrib_left)
  have dr: "drop (64 * (k + n)) (seen @ c) = drop (64 * n) data"
    by (simp add: seen' lenA distrib_left)
  have "length A mod 64 = 0" by (simp add: lenA)
  from compress_append [OF this]
  have cp: "compress (fst sha1_init) (A @ take (64 * n) data) = compress h (take (64 * n) data)"
    by (simp add: h)
  have upd: "sha1_update ctx c = (compress h (take (64 * n) data), drop (64 * n) data, len + length c)"
    by (simp add: sha1_update_def ctx data_def n_def Let_def)
  show ?thesis
    unfolding upd ctx_inv_def prod.case k' tk dr cp
    by (simp add: len)
qed

lemma ctx_inv_foldl:
  "ctx_inv seen ctx \<Longrightarrow> ctx_inv (seen @ concat cs) (foldl sha1_update ctx cs)"
proof (induction cs arbitrary: seen ctx)
  case Nil
  then show ?case by simp
next
  case (Cons c cs)
  from Cons.IH [OF ctx_inv_update [OF Cons.prems, of c]] show ?case by simp
qed

lemma sha1_pad_padding: "sha1_pad m = m @ sha1_padding (length m)"
  by (simp add: sha1_pad_def sha1_padding_def)

lemma sha1_compress:
  "sha1 m = (case compress (fst sha1_init) (sha1_pad m) of
               (a, b, c, d, e) \<Rightarrow> concat (map hex32 [a, b, c, d, e]))"
proof -
  have "length (sha1_pad m) div 4 div 16 = length (sha1_pad m) div 64"
    using div_mult2_eq [of "length (sha1_pad m)" 4 16] by simp
  then show ?thesis
    by (simp add: sha1_def compress_def sha1_init_def Let_def length_be_words)
qed

lemma ctx_inv_digest:
  assumes "ctx_inv seen ctx"
  shows "sha1_digest ctx = sha1 seen"
proof -
  obtain h pending len where ctx: "ctx = (h, pending, len)" by (cases ctx)
  define A where "A = take (64 * (length seen div 64)) seen"
  from assms ctx have len: "len = length seen" and pending: "pending = drop (64 * (length seen div 64)) seen"
    and h: "h = compress (fst sha1_init) A"
    by (simp_all add: ctx_inv_def A_def)
  have "length A mod 64 = 0" by (simp add: A_def)
  have "A @ pending = seen" by (simp add: A_def pending)
  then have "(A @ pending) @ sha1_padding len = sha1_pad seen"
    by (simp only: sha1_pad_padding len)
  then have "A @ (pending @ sha1_padding len) = sha1_pad seen"
    by (simp only: append_assoc)
  with compress_append [OF \<open>length A mod 64 = 0\<close>, of "fst sha1_init" "pending @ sha1_padding len"]
  have "compress h (pending @ sha1_padding len) = compress (fst sha1_init) (sha1_pad seen)"
    by (simp only: h)
  then show ?thesis
    by (simp add: sha1_digest_def ctx sha1_compress)
qed

lemma sha1_streamed:
  "sha1_digest (foldl sha1_update sha1_init cs) = sha1 (concat cs)"
  using ctx_inv_digest [OF ctx_inv_foldl [OF ctx_inv_init, of cs]] by simp

lemma sha1_pending_bound:
  "length (ctx_pending (foldl sha1_update sha1_init cs)) < 64"
proof -
  from ctx_inv_foldl [OF ctx_inv_init, of cs]
  have "ctx_inv (concat cs) (foldl sha1_update sha1_init cs)" by simp
  then show ?thesis
    by (cases "foldl sha1_update sha1_init cs") (auto simp: ctx_inv_def ctx_pending_def)
qed

lemma hashObject_eq:
  "hashObject env p w =
     (case stat_size env p w of
        Inl err \<Rightarrow> Some (Inl err)
      | Inr n \<Rightarrow>
          (case createReadStream env p w of
             (chunks, ReadError err) \<Rightarrow> None
           | (chunks, End) \<Rightarrow>
               Some (Inr (sha1 (bytes_of (''blob '' @ show_nat n @ [CHR 0x00]) @ concat chunks)))))"
  unfolding hashObject_def sha1_streamed
  by (simp split: sum.splits prod.splits read_end.splits)

lemma hashObject_nonempty: "hashObject env p w = Some (Inr h) \<Longrightarrow> h \<noteq> []"
  by (auto simp: hashObject_eq sha1_nonempty split: sum.splits prod.splits read_end.splits)

text \<open>
  Known answers, computed by rewriting: the blob hashes git prints for the empty content,
  for \<open>hello\<close> and \<open>hello world\<close> (each with a line feed) and for sixty times \<open>a\<close>.
  Header and content are padded to blocks of sixteen words, and each block is compressed
  in eighty rounds.
\<close>

lemma schedule_numeral:
  "schedule (numeral k) win =
     (case win of
        [] \<Rightarrow> []
      | w # rest \<Rightarrow>
          w # schedule (pred_numeral k)
                (rest @ [rotl 1 (win ! 13 XOR win ! 8 XOR win ! 2 XOR w)]))"
  by (simp add: numeral_eq_Suc)

lemma replicate_pred_numeral:
  "replicate (numeral k) x = x # replicate (pred_numeral k) x"
  by (simp add: numeral_eq_Suc)

lemma sha1_one_block:
  assumes "be_words (sha1_pad m) = ws" and "length ws = 16"
      and "sha1_block (fst sha1_init) ws = (a, b, c, d, e)"
  shows "sha1 m = hex32 a @ hex32 b @ hex32 c @ hex32 d @ hex32 e"
  using assms by (simp add: sha1_def sha1_init_def Let_def)

lemma sha1_two_blocks:
  assumes "be_words (sha1_pad m) = ws1 @ ws2" and "length ws1 = 16" and "length ws2 = 16"
      and "sha1_block (fst sha1_init) ws1 = h1"
      and "sha1_block h1 ws2 = (a, b, c, d, e)"
  shows "sha1 m = hex32 a @ hex32 b @ hex32 c @ hex32 d @ hex32 e"
  using assms by (simp add: sha1_def sha1_init_def Let_def numeral_2_eq_2)

lemma empty_blob_block:
  "sha1_block (fst sha1_init)
     [0x626C6F62, 0x20300080, 0, 0, 0, 0, 0, 0, 0, 0, 0, 0, 0, 0, 0, 0x38] =
     (0xE69DE29B, 0xB2D1D643, 0x4B8B29AE, 0x775AD8C2, 0xE48C5391)"
  by (simp add: sha1_init_def sha1_block_def schedule_numeral rotl_def sha1_round_def upt_rec)

lemma git_hash_object_empty:
  "git_hash_object [] = ''e69de29bb2d1d6434b8b29ae775ad8c2e48c5391''"
proof -
  have "be_words (sha1_pad (bytes_of (''blob '' @ show_nat (length ([] :: byte list)) @ [CHR 0x00]) @ [])) =
     [0x626C6F62, 0x20300080, 0, 0, 0, 0, 0, 0, 0, 0, 0, 0, 0, 0, 0, 0x38]"
    by (simp add: sha1_pad_def be_bytes_def bytes_of_def replicate_pred_numeral upt_rec
          show_nat.simps)
  from sha1_one_block [OF this _ empty_blob_block] show ?thesis
    by (simp add: git_hash_object_def hex32_def hex_digit_def upt_rec)
qed

lemma hello_block:
  "sha1_block (fst sha1_init)
     [1651273570, 540409960, 1701604463, 176160768, 0, 0, 0, 0, 0, 0, 0, 0, 0, 0, 0, 104] =
     (0xCE013625, 0x030BA8DB, 0xA906F756, 0x967F9E9C, 0xA394464A)"
  by (simp add: sha1_init_def sha1_block_def schedule_numeral rotl_def sha1_round_def upt_rec)

lemma git_hash_object_hello:
  "git_hash_object hello_content = ''ce013625030ba8dba906f756967f9e9ca394464a''"
proof -
  have "be_words (sha1_pad (bytes_of (''blob '' @ show_nat (length hello_content) @ [CHR 0x00])
                    @ hello_content)) =
     [1651273570, 540409960, 1701604463, 176160768, 0, 0, 0, 0, 0, 0, 0, 0, 0, 0, 0, 104]"
    by (simp add: hello_content_def sha1_pad_def be_bytes_def bytes_of_def
          replicate_pred_numeral upt_rec show_nat.simps)
  from sha1_one_block [OF this _ hello_block] show ?thesis
    by (simp add: git_hash_object_def hex32_def hex_digit_def upt_rec)
qed

lemma hello_world_block:
  "sha1_block (fst sha1_init)
     [1651273570, 540094976, 1751477356, 1864398703, 1919706122, 2147483648, 0, 0, 0, 0, 0,
      0, 0, 0, 0, 160] =
     (0x3B18E512, 0xDBA79E4C, 0x8300DD08, 0xAEB37F8E, 0x728B8DAD)"
  by (simp add: sha1_init_def sha1_block_def schedule_numeral rotl_def sha1_round_def upt_rec)

lemma git_hash_object_hello_world:
  "git_hash_object hello_world_content = ''3b18e512dba79e4c8300dd08aeb37f8e728b8dad''"
proof -
  have "be_words (sha1_pad (bytes_of (''blob '' @ show_nat (length hello_world_content) @ [CHR 0x00])
                    @ hello_world_content)) =
     [1651273570, 540094976, 1751477356, 1864398703, 1919706122, 2147483648, 0, 0, 0, 0, 0,
      0, 0, 0, 0, 160]"
    by (simp add: hello_world_content_def sha1_pad_def be_bytes_def bytes_of_def
          replicate_pred_numeral upt_rec show_nat.simps)
  from sha1_one_block [OF this _ hello_world_block] show ?thesis
    by (simp add: git_hash_object_def hex32_def hex_digit_def upt_rec)
qed

lemma sixty_a_block1:
  "sha1_block (fst sha1_init)
     [1651273570, 540422144, 1633771873, 1633771873, 1633771873, 1633771873, 1633771873,
      1633771873, 1633771873, 1633771873, 1633771873, 1633771873, 1633771873, 1633771873,
      1633771873, 1633771873] =
     (2931951801, 104615140, 3786437037, 170936458, 3246893975)"
  by (simp add: sha1_init_def sha1_block_def schedule_numeral rotl_def sha1_round_def upt_rec)

lemma sixty_a_block2:
  "sha1_block (2931951801, 104615140, 3786437037, 170936458, 3246893975)
     [1633771873, 2147483648, 0, 0, 0, 0, 0, 0, 0, 0, 0, 0, 0, 0, 0, 544] =
     (0x72EA3EB6, 0x92F1DC46, 0x23237B5D, 0x6A01890E, 0x71B75359)"
  by (simp add: sha1_block_def schedule_numeral rotl_def sha1_round_def upt_rec)

lemma git_hash_object_sixty_a:
  "git_hash_object sixty_a = ''72ea3eb692f1dc4623237b5d6a01890e71b75359''"
proof -
  have "be_words (sha1_pad (bytes_of (''blob '' @ show_nat (length sixty_a) @ [CHR 0x00])
                    @ sixty_a)) =
     [1651273570, 540422144, 1633771873, 1633771873, 1633771873, 1633771873, 1633771873,
      1633771873, 1633771873, 1633771873, 1633771873, 1633771873, 1633771873, 1633771873,
      1633771873, 1633771873] @
     [1633771873, 2147483648, 0, 0, 0, 0, 0, 0, 0, 0, 0, 0, 0, 0, 0, 544]"
    by (simp add: sixty_a_def sha1_pad_def be_bytes_def bytes_of_def
          replicate_pred_numeral upt_rec show_nat.simps)
  from sha1_two_blocks [OF this _ _ sixty_a_block1 sixty_a_block2] show ?thesis
    by (simp add: git_hash_object_def hex32_def hex_digit_def upt_rec)
qed

text \<open>
  C7: \<open>hashObject\<close> digests with SHA-1 the header \<open>blob <size>\0\<close>, with the size that
  \<open>stat\<close> reports in decimal, followed by the bytes of the file, chunk by chunk as the
  read stream delivers them: the digest is the one of the header followed by all the
  bytes, whatever the chunks, and between two chunks fewer than 64 bytes are held back,
  whatever the size of the file. When the size reported is the number of bytes delivered,
  the digest is the blob hash of git for the content, and the blob hash defined here is
  the one git prints for four contents. When \<open>stat\<close> fails, \<open>hashObject\<close> rejects
  with that error; when the read stream fails after \<open>stat\<close> has succeeded, the promise
  of \<open>hashObject\<close> never settles.
\<close>

theorem hashObject_git_blob_hash:
  "(stat_size env p w = Inl err \<longrightarrow> hashObject env p w = Some (Inl err)) \<and>
   (stat_size env p w = Inr n \<and> createReadStream env p w = (chunks, ReadError err) \<longrightarrow>
      hashObject env p w = None) \<and>
   (stat_size env p w = Inr n \<and> createReadStream env p w = (chunks, End) \<longrightarrow>
      hashObject env p w =
        Some (Inr (sha1 (bytes_of (''blob '' @ show_nat n @ [CHR 0x00]) @ concat chunks)))) \<and>
   (stat_size env p w = Inr (length (concat chunks)) \<and>
    createReadStream env p w = (chunks, End) \<longrightarrow>
      hashObject env p w = Some (Inr (git_hash_object (concat chunks)))) \<and>
   (\<forall>cs. sha1_digest (foldl sha1_update sha1_init cs) = sha1 (concat cs) \<and>
         length (ctx_pending (foldl sha1_update sha1_init cs)) < 64) \<and>
   git_hash_object [] = ''e69de29bb2d1d6434b8b29ae775ad8c2e48c5391'' \<and>
   git_hash_object hello_content = ''ce013625030ba8dba906f756967f9e9ca394464a'' \<and>
   git_hash_object hello_world_content = ''3b18e512dba79e4c8300dd08aeb37f8e728b8dad'' \<and>
   git_hash_object sixty_a = ''72ea3eb692f1dc4623237b5d6a01890e71b75359''"
  by (simp add: hashObject_eq git_hash_object_def [of "concat chunks"] sha1_streamed
        sha1_pending_bound git_hash_object_empty git_hash_object_hello
        git_hash_object_hello_world git_hash_object_sixty_a)

text \<open>
  A file read in three chunks, a file of two bytes, an empty file, a file that is not
  there, and a directory.
\<close>

lemma chunked_content:
  "concat [bytes_of ''hel'', bytes_of ''lo wor'', bytes_of (''ld'' @ [CHR 0x0A])] =
     hello_world_content"
  by (simp add: hello_world_content_def bytes_of_def)

theorem hashObject_git_blob_hash_witness:
  "hashObject chunked_env ''/repo/hello.txt'' () =
     Some (Inr ''3b18e512dba79e4c8300dd08aeb37f8e728b8dad'') \<and>
   hashObject repo_env ''/repo/b.go'' () = Some (Inr (git_hash_object [0x42, 0x32])) \<and>
   hashObject (script_env no_commit_git [''/repo/new.go'' \<mapsto> []]) ''/repo/new.go'' () =
     Some (Inr ''e69de29bb2d1d6434b8b29ae775ad8c2e48c5391'') \<and>
   hashObject repo_env ''/repo/gone.go'' () = Some (Inl (SysError (ErrName ''ENOENT''))) \<and>
   hashObject directory_env ''/repo/sub'' () = None"
proof -
  let ?fresh = "script_env no_commit_git [''/repo/new.go'' \<mapsto> []]"
  let ?three = "[bytes_of ''hel'', bytes_of ''lo wor'', bytes_of (''ld'' @ [CHR 0x0A])]"
  have three: "createReadStream chunked_env ''/repo/hello.txt'' () = (?three, End)"
    by (simp add: chunked_env_def)
  have three_size: "stat_size chunked_env ''/repo/hello.txt'' () = Inr (length (concat ?three))"
    by (simp add: chunked_env_def bytes_of_def)
  have two: "createReadStream repo_env ''/repo/b.go'' () = ([[0x42, 0x32]], End)"
    by (simp add: repo_env_def script_env_def repo_files_def)
  have two_size: "stat_size repo_env ''/repo/b.go'' () = Inr (length (concat [[0x42, 0x32 :: byte]]))"
    by (simp add: repo_env_def script_env_def repo_files_def)
  have none: "createReadStream ?fresh ''/repo/new.go'' () = ([[]], End)"
    by (simp add: script_env_def)
  have none_size: "stat_size ?fresh ''/repo/new.go'' () = Inr (length (concat [[] :: byte list]))"
    by (simp add: script_env_def)
  have gone: "stat_size repo_env ''/repo/gone.go'' () = Inl (SysError (ErrName ''ENOENT''))"
    by (simp add: repo_env_def script_env_def repo_files_def)
  have dir: "stat_size directory_env ''/repo/sub'' () = Inr 4096"
    "createReadStream directory_env ''/repo/sub'' () = ([], ReadError (SysError (ErrName ''EISDIR'')))"
    by (simp_all add: directory_env_def)
  from hashObject_git_blob_hash [of chunked_env "''/repo/hello.txt''" "()" _ _ ?three] three three_size
  have "hashObject chunked_env ''/repo/hello.txt'' () = Some (Inr (git_hash_object (concat ?three)))"
    by blast
  then have "hashObject chunked_env ''/repo/hello.txt'' () =
               Some (Inr (git_hash_object hello_world_content))"
    unfolding chunked_content .
  moreover have "git_hash_object hello_world_content = ''3b18e512dba79e4c8300dd08aeb37f8e728b8dad''"
    using hashObject_git_blob_hash [of repo_env "[]" "()"] by blast
  moreover have "git_hash_object [] = ''e69de29bb2d1d6434b8b29ae775ad8c2e48c5391''"
    using hashObject_git_blob_hash [of repo_env "[]" "()"] by blast
  moreover from hashObject_git_blob_hash [of repo_env "''/repo/b.go''" "()" _ _ "[[0x42, 0x32]]"] two two_size
  have "hashObject repo_env ''/repo/b.go'' () = Some (Inr (git_hash_object (concat [[0x42, 0x32]])))"
    by blast
  moreover from hashObject_git_blob_hash [of ?fresh "''/repo/new.go''" "()" _ _ "[[]]"] none none_size
  have "hashObject ?fresh ''/repo/new.go'' () = Some (Inr (git_hash_object (concat [[]])))"
    by blast
  moreover from hashObject_git_blob_hash [of repo_env "''/repo/gone.go''" "()"] gone
  have "hashObject repo_env ''/repo/gone.go'' () = Some (Inl (SysError (ErrName ''ENOENT'')))"
    by blast
  moreover from hashObject_git_blob_hash [of directory_env "''/repo/sub''" "()"] dir
  have "hashObject directory_env ''/repo/sub'' () = None"
    by blast
  ultimately show ?thesis
    by simp
qed

section \<open>The modified files\<close>

text \<open>
  C8: when \<open>git diff-index\<close> fails, \<open>getModifiedFiles\<close> answers the empty list if the
  error has code 128 (a repository without a commit) and throws the error again
  otherwise.
\<close>

theorem getModifiedFiles_no_commit:
  assumes "execa_stdout env ''git'' [''diff-index'', ''--name-only'', ''HEAD'', root] cwd (world s)
             = (Inl err, w')"
  shows "fst (getModifiedFiles (gitCli env cwd) root s) =
           (if err_code err = ExitCode 128 then Inr [] else Inl err)"
  using assms by (simp add: getModifiedFiles_def gitCli_def)

text \<open>In a repository without a commit \<open>git diff-index\<close> exits with code 128 and
  \<open>getFiles\<close> still lists the untracked (here empty) file; with another exit code the
  error is thrown.\<close>

lemma no_commit_getFiles:
  "map_option fst (getFiles (script_env no_commit_git [''/repo/new.go'' \<mapsto> []]) ''/repo'' None
          (initial_state ())) =
     Some (Inr [\<lparr> path = ''/repo/new.go'', hash = ''e69de29bb2d1d6434b8b29ae775ad8c2e48c5391'' \<rparr>])"
proof -
  have "map_option fst (getFiles (script_env no_commit_git [''/repo/new.go'' \<mapsto> []]) ''/repo'' None
          (initial_state ())) =
     Some (Inr [\<lparr> path = ''/repo/new.go'', hash = git_hash_object [] \<rparr>])"
    by (simp add: getFiles_def gatherFiles_def gitCli_def output_lines_def script_env_def
          no_commit_git_def scanFiles_def getModifiedFiles_def parseLine_def js_trim_def
          js_whitespace_def unlines_def initial_state_def resolve_undef_def resolve_def
          normalizeString_def isAbsolute_def Let_def filtered_files_def hashEntry_def
          hashObject_eq git_hash_object_def sha1_nonempty)
  then show ?thesis by (simp only: git_hash_object_empty)
qed

theorem getModifiedFiles_no_commit_witness:
  "fst (getModifiedFiles (gitCli (script_env no_commit_git Map.empty) ''/repo'') ''/repo''
          (initial_state ())) = Inr [] \<and>
   fst (getModifiedFiles (gitCli (script_env (\<lambda>args. Inl (SysError (ExitCode 1))) Map.empty) ''/repo'')
          ''/repo'' (initial_state ())) = Inl (SysError (ExitCode 1)) \<and>
   map_option fst (getFiles (script_env no_commit_git [''/repo/new.go'' \<mapsto> []]) ''/repo''
          None (initial_state ())) =
     Some (Inr [\<lparr> path = ''/repo/new.go'', hash = ''e69de29bb2d1d6434b8b29ae775ad8c2e48c5391'' \<rparr>])"
  using no_commit_getFiles getModifiedFiles_no_commit
          [of "script_env no_commit_git Map.empty" "''/repo''" "''/repo''" "initial_state ()"
              "SysError (ExitCode 128)" "()"]
        getModifiedFiles_no_commit
          [of "script_env (\<lambda>args. Inl (SysError (ExitCode 1))) Map.empty" "''/repo''" "''/repo''"
              "initial_state ()" "SysError (ExitCode 1)" "()"]
  by (simp add: script_env_def no_commit_git_def initial_state_def)

section \<open>The files of a tree\<close>

lemma getFiles_rev_parse_fails:
  assumes "execa_stdout env ''git'' [''rev-parse'', ''--show-toplevel''] root (world s) = (Inl err, w')"
  shows "map_option fst (getFiles env root include s) = Some (Inl err)"
  using assms by (simp add: getFiles_def gatherFiles_def gitCli_def)

lemma scanFiles_not_a_repository:
  assumes "execa_stdout env ''git'' [''ls-files'', ''-s'', ''--other'', ''--exclude=.garden'', root]
             cwd (world s) = (Inl (SysError (ExitCode 128)), w')"
  shows "fst (scanFiles (gitCli env cwd) root s) = Inr ([], [])"
  using assms by (simp add: scanFiles_def gitCli_def)

text \<open>
  C1 (where the code departs from the claim): outside every repository, where each
  \<open>git\<close> command exits with code 128, \<open>getFiles\<close> throws the error of
  \<open>rev-parse --show-toplevel\<close>, the first command it runs, and never reaches the scan
  whose code 128 it would turn into an empty result.
\<close>

theorem getFiles_not_a_repository_throws:
  "getFiles not_a_repository ''/repo'' None (initial_state ()) =
     Some (Inl (SysError (ExitCode 128)),
           \<lparr> world = (), logs = [], calls = [[''rev-parse'', ''--show-toplevel'']] \<rparr>)"
  by (simp add: getFiles_def gatherFiles_def gitCli_def not_a_repository_def script_env_def
        initial_state_def)


lemma hashEntry_result:
  assumes "hashEntry env root modified w f = Some (Inr e)"
  shows "path e = resolvedPath env root f \<and>
         hash e = (if needsHash env root modified f
                   then (case hashObject env (resolvedPath env root f) w of
                           Some (Inr h) \<Rightarrow> h | _ \<Rightarrow> [])
                   else the (c_hash f))"
  using assms
  by (auto simp: hashEntry_def needsHash_def resolvedPath_def Let_def
           split: if_splits sum.splits option.splits)

lemma hashEntry_gone_iff:
  assumes "hashEntry env root modified w f = Some (Inr e)"
  shows "hash e = [] \<longleftrightarrow>
           needsHash env root modified f \<and> fileGone env (resolvedPath env root f) w"
  using assms
  by (auto simp: hashEntry_def needsHash_def resolvedPath_def fileGone_def Let_def
                 hashObject_nonempty
           split: if_splits sum.splits option.splits)

lemma io_map_resolved:
  assumes "io_map f xs = Some (Inr ys)"
  shows "list_all2 (\<lambda>x y. f x = Some (Inr y)) xs ys"
  using assms
proof (induction xs arbitrary: ys)
  case Nil
  then show ?case by simp
next
  case (Cons x xs)
  then show ?case
    by (auto split: option.splits sum.splits)
qed

lemma list_all2_source:
  "list_all2 P xs ys \<Longrightarrow> y \<in> set ys \<Longrightarrow> \<exists>x \<in> set xs. P x y"
  by (induction rule: list_all2_induct) auto

lemma entries_of_list_all2:
  assumes "list_all2 (\<lambda>f e. hashEntry env root modified w f = Some (Inr e)) fs res"
  shows "res = map (\<lambda>f. \<lparr> path = resolvedPath env root f,
                      hash = (if needsHash env root modified f
                              then (case hashObject env (resolvedPath env root f) w of
                                      Some (Inr h) \<Rightarrow> h | _ \<Rightarrow> [])
                              else the (c_hash f)) \<rparr>) fs"
  using assms
proof (induction fs res rule: list_all2_induct)
  case Nil
  then show ?case by simp
next
  case (Cons f fs e res)
  from hashEntry_result [OF Cons.hyps(1)] have
    "e = \<lparr> path = resolvedPath env root f,
           hash = (if needsHash env root modified f
                   then (case hashObject env (resolvedPath env root f) w of
                           Some (Inr h) \<Rightarrow> h | _ \<Rightarrow> [])
                   else the (c_hash f)) \<rparr>"
    by (cases e) simp
  with Cons.IH show ?case by simp
qed

lemma kept_of_list_all2:
  assumes "list_all2 (\<lambda>f e. hashEntry env root modified w f = Some (Inr e)) fs res"
  shows "map path (filter (\<lambda>e. hash e \<noteq> []) res) =
         map (resolvedPath env root)
           (filter (\<lambda>f. \<not> (needsHash env root modified f \<and>
                              fileGone env (resolvedPath env root f) w)) fs)"
  using assms
proof (induction fs res rule: list_all2_induct)
  case Nil
  then show ?case by simp
next
  case (Cons f fs e res)
  from hashEntry_result [OF Cons.hyps(1)] hashEntry_gone_iff [OF Cons.hyps(1)] Cons.IH
  show ?case by simp
qed

lemma getFiles_unfold:
  assumes "gatherFiles env root s0 = (Inr (files, ignored, modified), s3)"
      and "getFiles env root include s0 = Some (Inr res, s')"
  shows "s' = s3 \<and> (\<exists>all. res = filter (\<lambda>e. hash e \<noteq> []) all \<and>
           list_all2 (\<lambda>f e. hashEntry env root modified (world s3) f = Some (Inr e))
             (filtered_files env include ignored files) all)"
  using assms
  by (auto simp: getFiles_def Let_def split: option.splits sum.splits dest!: io_map_resolved)

text \<open>The repository of the examples, evaluated.\<close>

lemma repo_gather:
  "gatherFiles repo_env ''/repo'' (initial_state ()) =
     (Inr (repo_candidates, [''skip.go''], [''/repo/b.go'']), repo_scanned)"
  by (simp add: gatherFiles_def gitCli_def output_lines_def repo_env_def script_env_def
        repo_git_def scanFiles_def getModifiedFiles_def parseLine_def js_trim_def
        js_whitespace_def unlines_def tracked_line_def initial_state_def resolve_undef_def
        resolve_def normalizeString_def isAbsolute_def Let_def repo_candidates_def
        repo_scanned_def)

lemma repo_getFiles:
  "getFiles repo_env ''/repo'' (Some go_files) (initial_state ()) =
     Some (Inr repo_result, repo_scanned)"
  unfolding getFiles_def repo_gather
  by (simp add: filtered_files_def go_files_def hashEntry_def hashObject_eq repo_env_def
        script_env_def repo_files_def resolve_def normalizeString_def isAbsolute_def Let_def
        git_hash_object_def bytes_of_def sha1_nonempty repo_candidates_def repo_result_def)

lemma repo_gone:
  "fileGone repo_env ''/repo/gone.go'' () \<and>
   map path repo_result = [''/repo/a.go'', ''/repo/b.go'', ''/repo/new.go'']"
  by (simp add: fileGone_def hashObject_eq repo_env_def script_env_def repo_files_def
        repo_result_def)

text \<open>
  C6: the result of \<open>getFiles\<close> is made of one entry for each filtered candidate, at its
  resolved path, with an empty hash dropped: the entry keeps the hash of the index exactly
  when the candidate carries one (a non-empty \<open>hash\<close>) and its resolved path is not in the
  modified set; otherwise its hash is what \<open>hashObject\<close> answers for the resolved path
  (and \<open>""\<close> when the file is gone).
\<close>

theorem getFiles_hash_reuse:
  assumes "gatherFiles env root s0 = (Inr (files, ignored, modified), s3)"
      and "getFiles env root include s0 = Some (Inr res, s')"
  shows "res = filter (\<lambda>e. hash e \<noteq> [])
           (map (\<lambda>f. \<lparr> path = resolvedPath env root f,
                      hash = (if truthy (c_hash f) \<and> resolvedPath env root f \<notin> set modified
                              then the (c_hash f)
                              else (case hashObject env (resolvedPath env root f) (world s3) of
                                      Some (Inr h) \<Rightarrow> h | _ \<Rightarrow> [])) \<rparr>)
                (filtered_files env include ignored files))"
proof -
  from getFiles_unfold [OF assms] obtain all where
    res: "res = filter (\<lambda>e. hash e \<noteq> []) all" and
    all: "list_all2 (\<lambda>f e. hashEntry env root modified (world s3) f = Some (Inr e))
             (filtered_files env include ignored files) all"
    by blast
  have "all = map (\<lambda>f. \<lparr> path = resolvedPath env root f,
                      hash = (if truthy (c_hash f) \<and> resolvedPath env root f \<notin> set modified
                              then the (c_hash f)
                              else (case hashObject env (resolvedPath env root f) (world s3) of
                                      Some (Inr h) \<Rightarrow> h | _ \<Rightarrow> [])) \<rparr>)
                (filtered_files env include ignored files)"
    unfolding entries_of_list_all2 [OF all]
    by (rule map_cong) (simp_all add: needsHash_def)
  with res show ?thesis by (simp only:)
qed

theorem getFiles_hash_reuse_witness:
  "gatherFiles repo_env ''/repo'' (initial_state ()) =
     (Inr (repo_candidates, [''skip.go''], [''/repo/b.go'']), repo_scanned) \<and>
   getFiles repo_env ''/repo'' (Some go_files) (initial_state ()) =
     Some (Inr repo_result, repo_scanned) \<and>
   repo_result = filter (\<lambda>e. hash e \<noteq> [])
     (map (\<lambda>f. \<lparr> path = resolvedPath repo_env ''/repo'' f,
                hash = (if truthy (c_hash f) \<and>
                           resolvedPath repo_env ''/repo'' f \<notin> set [''/repo/b.go'']
                        then the (c_hash f)
                        else (case hashObject repo_env (resolvedPath repo_env ''/repo'' f)
                                     (world repo_scanned) of
                                Some (Inr h) \<Rightarrow> h | _ \<Rightarrow> [])) \<rparr>)
        (filtered_files repo_env (Some go_files) [''skip.go''] repo_candidates))"
  by (rule conjI [OF repo_gather conjI [OF repo_getFiles
        getFiles_hash_reuse [OF repo_gather repo_getFiles]]])

text \<open>
  C2: every entry of the result of \<open>getFiles\<close> has a non-empty hash, and the paths of the
  result are the resolved paths of the filtered candidates, in order, without those that
  are hashed again while their file is gone (the hashing fails with code 128 or
  \<open>ENOENT\<close>): such a candidate leaves no entry.
\<close>

theorem getFiles_no_empty_hash:
  assumes "gatherFiles env root s0 = (Inr (files, ignored, modified), s3)"
      and "getFiles env root include s0 = Some (Inr res, s')"
  shows "(\<forall>e \<in> set res. hash e \<noteq> []) \<and>
         map path res =
           map (resolvedPath env root)
             (filter (\<lambda>f. \<not> (needsHash env root modified f \<and>
                                fileGone env (resolvedPath env root f) (world s3)))
                (filtered_files env include ignored files))"
proof -
  from getFiles_unfold [OF assms] obtain all where
    res: "res = filter (\<lambda>e. hash e \<noteq> []) all" and
    all: "list_all2 (\<lambda>f e. hashEntry env root modified (world s3) f = Some (Inr e))
             (filtered_files env include ignored files) all"
    by blast
  from res have "\<forall>e \<in> set res. hash e \<noteq> []" by simp
  moreover from kept_of_list_all2 [OF all] res have
    "map path res = map (resolvedPath env root)
             (filter (\<lambda>f. \<not> (needsHash env root modified f \<and>
                                fileGone env (resolvedPath env root f) (world s3)))
                (filtered_files env include ignored files))"
    by simp
  ultimately show ?thesis by blast
qed

text \<open>In the repository of the examples \<open>gone.go\<close> is hashed and gone: it leaves no
  entry, and the three entries left have a hash.\<close>

theorem getFiles_no_empty_hash_witness:
  "gatherFiles repo_env ''/repo'' (initial_state ()) =
     (Inr (repo_candidates, [''skip.go''], [''/repo/b.go'']), repo_scanned) \<and>
   getFiles repo_env ''/repo'' (Some go_files) (initial_state ()) =
     Some (Inr repo_result, repo_scanned) \<and>
   list_all (\<lambda>e. hash e \<noteq> []) repo_result \<and>
   map path repo_result =
     map (resolvedPath repo_env ''/repo'')
       (filter (\<lambda>f. \<not> (needsHash repo_env ''/repo'' [''/repo/b.go''] f \<and>
                          fileGone repo_env (resolvedPath repo_env ''/repo'' f) (world repo_scanned)))
          (filtered_files repo_env (Some go_files) [''skip.go''] repo_candidates)) \<and>
   fileGone repo_env ''/repo/gone.go'' () \<and>
   map path repo_result = [''/repo/a.go'', ''/repo/b.go'', ''/repo/new.go'']"
proof -
  note claim = getFiles_no_empty_hash [OF repo_gather repo_getFiles]
  from claim have "list_all (\<lambda>e. hash e \<noteq> []) repo_result"
    unfolding list_all_iff by blast
  with claim repo_gather repo_getFiles repo_gone show ?thesis
    by blast
qed

text \<open>
  C5: the candidates pass the include filter and then lose the ignored paths, so no
  candidate whose path is in the ignored list is among the filtered ones, whatever the
  include patterns; and every entry of the result of \<open>getFiles\<close> is the resolved path of
  a candidate that the include filter lets through and that is not ignored.
\<close>

theorem getFiles_ignore_wins:
  assumes "gatherFiles env root s0 = (Inr (files, ignored, modified), s3)"
      and "getFiles env root include s0 = Some (Inr res, s')"
  shows "(\<forall>f \<in> set files. c_path f \<in> set ignored \<longrightarrow>
            f \<notin> set (filtered_files env include ignored files)) \<and>
         (\<forall>e \<in> set res. \<exists>f \<in> set files.
            path e = resolvedPath env root f \<and> included env include f \<and>
            c_path f \<notin> set ignored)"
proof -
  from getFiles_unfold [OF assms] obtain all where
    res: "res = filter (\<lambda>e. hash e \<noteq> []) all" and
    all: "list_all2 (\<lambda>f e. hashEntry env root modified (world s3) f = Some (Inr e))
             (filtered_files env include ignored files) all"
    by blast
  have excluded: "\<forall>f \<in> set files. c_path f \<in> set ignored \<longrightarrow>
            f \<notin> set (filtered_files env include ignored files)"
    by (simp add: filtered_files_def)
  have "\<exists>f \<in> set files. path e = resolvedPath env root f \<and> included env include f \<and>
            c_path f \<notin> set ignored" if "e \<in> set res" for e
  proof -
    from that res have "e \<in> set all" by simp
    from list_all2_source [OF all this] obtain f
      where f: "f \<in> set (filtered_files env include ignored files)"
        and e: "hashEntry env root modified (world s3) f = Some (Inr e)"
      by blast
    from f have "f \<in> set files" "included env include f" "c_path f \<notin> set ignored"
      by (simp_all add: filtered_files_def included_def)
    with hashEntry_result [OF e] show ?thesis by blast
  qed
  with excluded show ?thesis by blast
qed

text \<open>In the repository of the examples \<open>skip.go\<close> is in the include list and ignored:
  it is not among the filtered candidates, and no entry of the result comes from an
  ignored candidate.\<close>

theorem getFiles_ignore_wins_witness:
  "gatherFiles repo_env ''/repo'' (initial_state ()) =
     (Inr (repo_candidates, [''skip.go''], [''/repo/b.go'']), repo_scanned) \<and>
   getFiles repo_env ''/repo'' (Some go_files) (initial_state ()) =
     Some (Inr repo_result, repo_scanned) \<and>
   included repo_env (Some go_files) \<lparr>c_path = ''skip.go'', c_hash = Some ''cccc''\<rparr> \<and>
   \<lparr>c_path = ''skip.go'', c_hash = Some ''cccc''\<rparr> \<in> set repo_candidates \<and>
   \<lparr>c_path = ''skip.go'', c_hash = Some ''cccc''\<rparr>
     \<notin> set (filtered_files repo_env (Some go_files) [''skip.go''] repo_candidates) \<and>
   list_all (\<lambda>e. list_ex (\<lambda>f. path e = resolvedPath repo_env ''/repo'' f \<and>
                               included repo_env (Some go_files) f \<and>
                               c_path f \<notin> set [''skip.go'']) repo_candidates) repo_result"
proof -
  note claim = getFiles_ignore_wins [OF repo_gather repo_getFiles]
  have skip: "\<lparr>c_path = ''skip.go'', c_hash = Some ''cccc''\<rparr> \<in> set repo_candidates"
    by (simp add: repo_candidates_def)
  have inc: "included repo_env (Some go_files) \<lparr>c_path = ''skip.go'', c_hash = Some ''cccc''\<rparr>"
    by (simp add: included_def repo_env_def script_env_def go_files_def)
  from claim skip have out: "\<lparr>c_path = ''skip.go'', c_hash = Some ''cccc''\<rparr>
     \<notin> set (filtered_files repo_env (Some go_files) [''skip.go''] repo_candidates)"
    by fastforce
  from claim have "list_all (\<lambda>e. list_ex (\<lambda>f. path e = resolvedPath repo_env ''/repo'' f \<and>
                               included repo_env (Some go_files) f \<and>
                               c_path f \<notin> set [''skip.go'']) repo_candidates) repo_result"
    unfolding list_all_iff list_ex_iff by blast
  with repo_gather repo_getFiles skip inc out show ?thesis
    by blast
qed

section \<open>Updating a remote source\<close>

lemma gitCli_effect:
  assumes "gitCli env cwd args s = (r, s')"
  shows "calls s' = calls s @ [args] \<and> logs s' = logs s \<and>
         world s' = snd (execa_stdout env ''git'' args cwd (world s))"
  using assms by (auto simp: gitCli_def split: prod.splits)

lemma log_event_effect:
  "calls (log_event ev s) = calls s \<and> world (log_event ev s) = world s \<and>
   logs (log_event ev s) = logs s @ [ev]"
  by (simp add: log_event_def)

lemma ensureRemoteSource_calls:
  assumes "ensureRemoteSource env p s = (r, s')"
  shows "\<exists>cs. calls s' = calls s @ cs \<and> list_all (\<lambda>c. \<not> fetch_or_reset c) cs"
  using assms
  by (auto simp: ensureRemoteSource_def Let_def log_event_def fetch_or_reset_def
           split: prod.splits option.splits if_splits sum.splits
           dest!: gitCli_effect)

lemma getRemoteState_Inr:
  assumes "getRemoteState env p s0 = (Inr (parsed, r, l), s5)"
  shows "\<exists>a s1. ensureRemoteSource env p s0 = (Inr a, s1) \<and>
           calls s5 = calls s1 @ [[''remote'', ''update''],
                                  [''ls-remote'', repositoryUrl parsed, url_hash parsed],
                                  [''show-ref'', ''--hash'', url_hash parsed]]"
  using assms
  by (auto simp: getRemoteState_def Let_def log_event_def
           split: sum.splits prod.splits dest!: gitCli_effect)

lemma getRemoteState_no_fetch:
  assumes "getRemoteState env p s0 = (Inr (parsed, r, l), s5)"
  shows "list_all (\<lambda>c. \<not> fetch_or_reset c) (new_calls s0 s5)"
proof -
  from getRemoteState_Inr [OF assms] obtain a s1 where
    e: "ensureRemoteSource env p s0 = (Inr a, s1)" and
    c: "calls s5 = calls s1 @ [[''remote'', ''update''],
                                  [''ls-remote'', repositoryUrl parsed, url_hash parsed],
                                  [''show-ref'', ''--hash'', url_hash parsed]]"
    by blast
  from ensureRemoteSource_calls [OF e] obtain cs where
    "calls s1 = calls s0 @ cs" "list_all (\<lambda>c. \<not> fetch_or_reset c) cs"
    by blast
  with c show ?thesis
    by (simp add: new_calls_def fetch_or_reset_def)
qed

lemma updateRemoteSource_equal:
  assumes "getRemoteState env p s0 = (Inr (parsed, r, r), s5)"
  shows "updateRemoteSource env p s0 =
           (Inr (), log_event (SetSuccess (Some ''Source already up to date'')) s5)"
  using assms by (simp add: updateRemoteSource_def)

lemma settled_facts:
  assumes "settled env p w"
  shows "\<exists>parsed o1 o2 o3.
           parseGitUrl (url p) = Inr parsed \<and>
           ensureDir env (join [gardenDirPath env, getRemoteSourcesDirname env (sourceType p)]) w
             = (None, w) \<and>
           pathExists env (remoteSourceAbsPath env p) w \<and>
           execa_stdout env ''git'' [''remote'', ''update''] (remoteSourceAbsPath env p) w
             = (Inr o1, w) \<and>
           execa_stdout env ''git'' [''ls-remote'', repositoryUrl parsed, url_hash parsed]
               (remoteSourceAbsPath env p) w = (Inr o2, w) \<and>
           execa_stdout env ''git'' [''show-ref'', ''--hash'', url_hash parsed]
               (remoteSourceAbsPath env p) w = (Inr o3, w) \<and>
           getCommitIdFromRefList (output_lines o3) = getCommitIdFromRefList (output_lines o2)"
proof (cases "parseGitUrl (url p)")
  case (Inl err)
  with assms show ?thesis by (simp add: settled_def)
next
  case (Inr parsed)
  let ?git = "\<lambda>args. execa_stdout env ''git'' args (remoteSourceAbsPath env p) w"
  obtain r1 w1 where g1: "?git [''remote'', ''update''] = (r1, w1)"
    by (cases "?git [''remote'', ''update'']")
  obtain r2 w2 where g2: "?git [''ls-remote'', repositoryUrl parsed, url_hash parsed] = (r2, w2)"
    by (cases "?git [''ls-remote'', repositoryUrl parsed, url_hash parsed]")
  obtain r3 w3 where g3: "?git [''show-ref'', ''--hash'', url_hash parsed] = (r3, w3)"
    by (cases "?git [''show-ref'', ''--hash'', url_hash parsed]")
  from assms Inr g1 g2 g3 show ?thesis
    by (cases r1; cases r2; cases r3) (simp_all add: settled_def Let_def)
qed

lemma settled_getRemoteState:
  assumes "settled env p (world s)"
  shows "\<exists>parsed r. getRemoteState env p s =
           (Inr (parsed, r, r),
            s\<lparr> logs := logs s @ [LogInfo (name p) ''Getting remote state'' ''active''],
               calls := calls s @ [[''remote'', ''update''],
                                   [''ls-remote'', repositoryUrl parsed, url_hash parsed],
                                   [''show-ref'', ''--hash'', url_hash parsed]] \<rparr>)"
proof -
  from settled_facts [OF assms] obtain parsed o1 o2 o3 where
    "parseGitUrl (url p) = Inr parsed"
    "ensureDir env (join [gardenDirPath env, getRemoteSourcesDirname env (sourceType p)]) (world s)
       = (None, world s)"
    "pathExists env (remoteSourceAbsPath env p) (world s)"
    "execa_stdout env ''git'' [''remote'', ''update''] (remoteSourceAbsPath env p) (world s)
       = (Inr o1, world s)"
    "execa_stdout env ''git'' [''ls-remote'', repositoryUrl parsed, url_hash parsed]
       (remoteSourceAbsPath env p) (world s) = (Inr o2, world s)"
    "execa_stdout env ''git'' [''show-ref'', ''--hash'', url_hash parsed]
       (remoteSourceAbsPath env p) (world s) = (Inr o3, world s)"
    "getCommitIdFromRefList (output_lines o3) = getCommitIdFromRefList (output_lines o2)"
    by blast
  then have "getRemoteState env p s =
           (Inr (parsed, getCommitIdFromRefList (output_lines o2),
                 getCommitIdFromRefList (output_lines o2)),
            s\<lparr> logs := logs s @ [LogInfo (name p) ''Getting remote state'' ''active''],
               calls := calls s @ [[''remote'', ''update''],
                                   [''ls-remote'', repositoryUrl parsed, url_hash parsed],
                                   [''show-ref'', ''--hash'', url_hash parsed]] \<rparr>)"
    by (simp add: getRemoteState_def ensureRemoteSource_def gitCli_def log_event_def Let_def)
  then show ?thesis by blast
qed

lemma settled_update:
  assumes "settled env p (world s)"
  shows "\<exists>s'. updateRemoteSource env p s = (Inr (), s') \<and> world s' = world s \<and>
           logs s' = logs s @ up_to_date_logs p \<and>
           list_all (\<lambda>c. \<not> fetch_or_reset c) (new_calls s s')"
proof -
  from settled_getRemoteState [OF assms] obtain parsed r where
    g: "getRemoteState env p s =
           (Inr (parsed, r, r),
            s\<lparr> logs := logs s @ [LogInfo (name p) ''Getting remote state'' ''active''],
               calls := calls s @ [[''remote'', ''update''],
                                   [''ls-remote'', repositoryUrl parsed, url_hash parsed],
                                   [''show-ref'', ''--hash'', url_hash parsed]] \<rparr>)"
    by blast
  show ?thesis
    unfolding updateRemoteSource_equal [OF g]
    by (simp add: log_event_def up_to_date_logs_def new_calls_def fetch_or_reset_def)
qed

lemma sim_parse:
  "parseGitUrl (url sim_params) = Inr \<lparr> repositoryUrl = ''https://example.com/r.git'', url_hash = ''main'' \<rparr>"
  by (simp add: sim_params_def parseGitUrl_def)

lemma sim_settled: "settled sim_env sim_params (world (initial_state sim_synced))"
  by (simp add: settled_def sim_parse initial_state_def sim_env_def sim_git_def sim_synced_def
        unlines_def output_lines_def getCommitIdFromRefList_def Let_def remoteSourceAbsPath_def)

lemma sim_getRemoteState:
  "getRemoteState sim_env sim_params (initial_state sim_synced) =
     (Inr (\<lparr> repositoryUrl = ''https://example.com/r.git'', url_hash = ''main'' \<rparr>,
           Some ''c0ffee'', Some ''c0ffee''), sim_queried)"
  by (simp add: getRemoteState_def sim_parse ensureRemoteSource_def gitCli_def log_event_def Let_def
        initial_state_def sim_queried_def sim_env_def sim_git_def sim_synced_def unlines_def
        output_lines_def getCommitIdFromRefList_def remoteSourceAbsPath_def)
     (simp add: sim_params_def)

text \<open>
  C4: when \<open>updateRemoteSource\<close> reaches its comparison with a local commit id equal
  to the remote one, it succeeds, the last thing it tells the logger is "Source already
  up to date", the world is the one the comparison found, and none of the \<open>git\<close>
  commands it has run is a \<open>fetch\<close> or a \<open>reset\<close>. Hence, in a settled world (the
  checkout is present, the queries answer equal commit ids and nothing changes upstream),
  two calls in a row both succeed, both log "Source already up to date", run no \<open>fetch\<close>
  and no \<open>reset\<close>, and leave the world, and so the local commit id, as it was.
\<close>

theorem updateRemoteSource_up_to_date:
  "(getRemoteState env p s0 = (Inr (parsed, remoteCommitId, localCommitId), s5) \<and>
    localCommitId = remoteCommitId \<longrightarrow>
      updateRemoteSource env p s0 =
        (Inr (), log_event (SetSuccess (Some ''Source already up to date'')) s5) \<and>
      world (snd (updateRemoteSource env p s0)) = world s5 \<and>
      list_all (\<lambda>c. \<not> fetch_or_reset c) (new_calls s0 (snd (updateRemoteSource env p s0)))) \<and>
   (settled env p (world s0) \<longrightarrow>
      (let s1 = snd (updateRemoteSource env p s0);
           s2 = snd (updateRemoteSource env p s1)
       in fst (updateRemoteSource env p s0) = Inr () \<and>
          fst (updateRemoteSource env p s1) = Inr () \<and>
          logs s1 = logs s0 @ up_to_date_logs p \<and>
          logs s2 = logs s1 @ up_to_date_logs p \<and>
          world s1 = world s0 \<and> world s2 = world s0 \<and>
          list_all (\<lambda>c. \<not> fetch_or_reset c) (new_calls s0 s1) \<and>
          list_all (\<lambda>c. \<not> fetch_or_reset c) (new_calls s1 s2)))"
proof (intro conjI impI)
  assume a: "getRemoteState env p s0 = (Inr (parsed, remoteCommitId, localCommitId), s5) \<and>
    localCommitId = remoteCommitId"
  then have g: "getRemoteState env p s0 = (Inr (parsed, remoteCommitId, remoteCommitId), s5)"
    by simp
  show "updateRemoteSource env p s0 =
        (Inr (), log_event (SetSuccess (Some ''Source already up to date'')) s5)"
    by (rule updateRemoteSource_equal [OF g])
  show "world (snd (updateRemoteSource env p s0)) = world s5"
    by (simp add: updateRemoteSource_equal [OF g] log_event_def)
  from getRemoteState_no_fetch [OF g]
  show "list_all (\<lambda>c. \<not> fetch_or_reset c) (new_calls s0 (snd (updateRemoteSource env p s0)))"
    by (simp add: updateRemoteSource_equal [OF g] log_event_def new_calls_def)
next
  assume s: "settled env p (world s0)"
  from settled_update [OF s] obtain s1 where
    u1: "updateRemoteSource env p s0 = (Inr (), s1)" and w1: "world s1 = world s0" and
    l1: "logs s1 = logs s0 @ up_to_date_logs p" and
    c1: "list_all (\<lambda>c. \<not> fetch_or_reset c) (new_calls s0 s1)"
    by blast
  from s w1 have "settled env p (world s1)" by simp
  from settled_update [OF this] obtain s2 where
    u2: "updateRemoteSource env p s1 = (Inr (), s2)" and w2: "world s2 = world s1" and
    l2: "logs s2 = logs s1 @ up_to_date_logs p" and
    c2: "list_all (\<lambda>c. \<not> fetch_or_reset c) (new_calls s1 s2)"
    by blast
  from u1 u2 w1 w2 l1 l2 c1 c2
  show "let s1 = snd (updateRemoteSource env p s0);
           s2 = snd (updateRemoteSource env p s1)
       in fst (updateRemoteSource env p s0) = Inr () \<and>
          fst (updateRemoteSource env p s1) = Inr () \<and>
          logs s1 = logs s0 @ up_to_date_logs p \<and>
          logs s2 = logs s1 @ up_to_date_logs p \<and>
          world s1 = world s0 \<and> world s2 = world s0 \<and>
          list_all (\<lambda>c. \<not> fetch_or_reset c) (new_calls s0 s1) \<and>
          list_all (\<lambda>c. \<not> fetch_or_reset c) (new_calls s1 s2)"
    by (simp add: Let_def)
qed


theorem updateRemoteSource_up_to_date_witness:
  "getRemoteState sim_env sim_params (initial_state sim_synced) =
     (Inr (\<lparr> repositoryUrl = ''https://example.com/r.git'', url_hash = ''main'' \<rparr>,
           Some ''c0ffee'', Some ''c0ffee''), sim_queried) \<and>
   updateRemoteSource sim_env sim_params (initial_state sim_synced) =
     (Inr (), log_event (SetSuccess (Some ''Source already up to date'')) sim_queried) \<and>
   settled sim_env sim_params (world (initial_state sim_synced)) \<and>
   fst (updateRemoteSource sim_env sim_params
          (snd (updateRemoteSource sim_env sim_params (initial_state sim_synced)))) = Inr () \<and>
   logs (snd (updateRemoteSource sim_env sim_params
          (snd (updateRemoteSource sim_env sim_params (initial_state sim_synced))))) =
     up_to_date_logs sim_params @ up_to_date_logs sim_params \<and>
   world (snd (updateRemoteSource sim_env sim_params
          (snd (updateRemoteSource sim_env sim_params (initial_state sim_synced))))) = sim_synced"
proof -
  note claim = updateRemoteSource_up_to_date
                 [of sim_env sim_params "initial_state sim_synced" _ "Some ''c0ffee''" "Some ''c0ffee''"
                     sim_queried]
  from claim sim_getRemoteState have
    "updateRemoteSource sim_env sim_params (initial_state sim_synced) =
       (Inr (), log_event (SetSuccess (Some ''Source already up to date'')) sim_queried)"
    by blast
  moreover from claim sim_settled have
    "fst (updateRemoteSource sim_env sim_params
          (snd (updateRemoteSource sim_env sim_params (initial_state sim_synced)))) = Inr () \<and>
     logs (snd (updateRemoteSource sim_env sim_params
          (snd (updateRemoteSource sim_env sim_params (initial_state sim_synced))))) =
       up_to_date_logs sim_params @ up_to_date_logs sim_params \<and>
     world (snd (updateRemoteSource sim_env sim_params
          (snd (updateRemoteSource sim_env sim_params (initial_state sim_synced))))) = sim_synced"
    by (simp add: Let_def initial_state_def)
  ultimately show ?thesis using sim_getRemoteState sim_settled by blast
qed


section \<open>Stored task results\<close>

lemma tailString_tail:
  "suffix (tailString str n b) str \<and> length (tailString str n b) = min (length str) n \<and>
   tailString (tailString str n b) n b' = tailString str n b"
  by (auto simp: tailString_def suffix_drop)

lemma stored_by_storeTaskResult:
  "storeTaskResult n m t v result store (m, t, v) =
     Some (result\<lparr> run_output := tailString (run_output result) n True \<rparr>)"
  by (simp add: storeTaskResult_def)

text \<open>What each of the two functions hands to \<open>storeTaskResult\<close> (and returns):
  \<open>runHelmTask\<close> a result whose output it has cut already, \<open>runContainerTask\<close> the
  result with the whole output of the pod.\<close>

lemma runHelmTask_returns_cut:
  "fst (runHelmTask n m t v (Inr res) store) = Inr result \<Longrightarrow>
     run_output result = tailString (run_output res) n True"
  by (auto simp: runHelmTask_def Let_def RunResult.defs RunTaskResult.defs)

lemma runContainerTask_returns_uncut:
  "fst (runContainerTask n m t v (Inr res) store) = Inr result \<Longrightarrow>
     run_output result = run_output res"
  by (auto simp: runContainerTask_def Let_def RunResult.defs RunTaskResult.defs)

text \<open>
  C9: after \<open>runHelmTask\<close> or \<open>runContainerTask\<close> has stored the result of a pod, the
  output stored under the module, the task and the version is a tail of the output of the
  pod, as long as the output or as the ceiling, whichever is less: an output above the
  ceiling is stored cut down to its last \<open>MAX_RUN_RESULT_OUTPUT_LENGTH\<close> characters.
\<close>

theorem stored_output_truncated:
  assumes "run = runHelmTask \<or> run = runContainerTask"
      and "run MAX_RUN_RESULT_OUTPUT_LENGTH m t v (Inr res) store = (r, store')"
  shows "\<exists>stored. store' (m, t, v) = Some stored \<and>
           suffix (run_output stored) (run_output res) \<and>
           length (run_output stored) = min (length (run_output res)) MAX_RUN_RESULT_OUTPUT_LENGTH \<and>
           (MAX_RUN_RESULT_OUTPUT_LENGTH < length (run_output res) \<longrightarrow>
              run_output stored =
                drop (length (run_output res) - MAX_RUN_RESULT_OUTPUT_LENGTH) (run_output res))"
  using assms
  by (auto simp: runHelmTask_def runContainerTask_def stored_by_storeTaskResult Let_def
                 tailString_tail RunResult.defs RunTaskResult.defs)
     (simp_all add: tailString_def)


theorem stored_output_truncated_witness:
  "(\<exists>stored. snd (runHelmTask 5 ''module-a'' ''task-a'' ''v-1'' (Inr sample_result) Map.empty)
                (''module-a'', ''task-a'', ''v-1'') = Some stored \<and>
              run_output stored = ''56789'') \<and>
   (\<exists>stored. snd (runContainerTask 5 ''module-a'' ''task-a'' ''v-1'' (Inr sample_result) Map.empty)
                (''module-a'', ''task-a'', ''v-1'') = Some stored \<and>
              run_output stored = ''56789'')"
  using stored_output_truncated
          [of runHelmTask 5 "''module-a''" "''task-a''" "''v-1''" sample_result Map.empty
              "fst (runHelmTask 5 ''module-a'' ''task-a'' ''v-1'' (Inr sample_result) Map.empty)"
              "snd (runHelmTask 5 ''module-a'' ''task-a'' ''v-1'' (Inr sample_result) Map.empty)"]
        stored_output_truncated
          [of runContainerTask 5 "''module-a''" "''task-a''" "''v-1''" sample_result Map.empty
              "fst (runContainerTask 5 ''module-a'' ''task-a'' ''v-1'' (Inr sample_result) Map.empty)"
              "snd (runContainerTask 5 ''module-a'' ''task-a'' ''v-1'' (Inr sample_result) Map.empty)"]
  by (simp add: sample_result_def) blast

end
